theory Spec2Isabelle
  imports Complex_Main "HOL-Library.AList"
begin

section \<open>Records of the job store (models/job.ts, models/queue.ts)\<close>

text \<open>
  Times are milliseconds since the epoch. A job payload is an untyped object in the
  source; the model keeps the three properties the queue manager reads from it
  (\<open>id\<close>, \<open>userId\<close>, \<open>priority\<close>) and carries every other property along unread.
\<close>

type_synonym time = int

datatype job_status = Waiting | Active | Completed | Failed | Stalled

record payload =
  p_id :: "string option"
  p_userId :: "string option"
  p_priority :: "int option"
  p_rest :: "(string \<times> string) list"

record job_doc =
  jobId :: string
  queue :: string
  type :: string
  data :: payload
  userId :: "string option"
  status :: job_status
  priority :: int
  attempts :: int
  maxAttempts :: int
  delay :: int
  result :: "string option"
  error :: "string option"
  processingTime :: "int option"
  createdAt :: time
  startedAt :: "time option"
  completedAt :: "time option"
  failedAt :: "time option"
  stalledAt :: "time option"

datatype health_status = Healthy | Warning | Error

record queue_configuration =
  concurrency :: int
  retryAttempts :: int
  retryDelay :: int
  removeOnComplete :: int
  removeOnFail :: int

record queue_doc =
  name :: string
  description :: "string option"
  isActive :: bool
  totalJobs :: nat
  completedJobs :: nat
  failedJobs :: nat
  activeJobs :: nat
  waitingJobs :: nat
  delayedJobs :: nat
  processingRate :: rat
  averageProcessingTime :: rat
  lastProcessedAt :: "time option"
  configuration :: queue_configuration
  healthStatus :: health_status
  lastHealthCheck :: time

section \<open>The Bull queues held by the queue manager\<close>

text \<open>
  \<open>JobOptions\<close> is Bull's option object; the code sets or reads \<open>attempts\<close>,
  \<open>delay\<close> and \<open>priority\<close>, all typed as optional numbers (taken as integers
  here: counts and milliseconds). \<open>JobData\<close> is the interface of the same name in
  the queue manager. A Bull job is what \<open>queue.add(name, data, opts)\<close> stores, with the
  state Bull reports for it.
\<close>

record job_options =
  o_attempts :: "int option"
  o_delay :: "int option"
  o_priority :: "int option"

record job_data =
  jd_id :: string
  jd_type :: string
  jd_payload :: payload
  jd_userId :: "string option"
  jd_priority :: int
  jd_attempts :: int
  jd_delay :: int
  jd_timestamp :: time

datatype bull_state = BWaiting | BActive | BCompleted | BFailed | BDelayed

record bull_job =
  bj_id :: string
  bj_name :: string
  bj_data :: job_data
  bj_opts :: job_options
  bj_state :: bull_state

text \<open>
  The whole service state: the two Mongo collections, the map \<open>QueueManager.queues\<close>
  from queue name to Bull queue, and the keys of \<open>QueueManager.processors\<close>
  (the source's key \<open>queueName:jobType\<close> is kept as a pair).
\<close>

record system =
  job_docs :: "job_doc list"
  queue_docs :: "queue_doc list"
  queues :: "(string \<times> bull_job list) list"
  processors :: "(string \<times> string) list"

text \<open>
  What a call reads from outside the state: the clock, the tail of the identifier that
  \<open>generateJobId\<close> draws from the clock and the random generator, and whether
  MongoDB and Redis answer.
\<close>

record env =
  now :: time
  id_suffix :: string
  store_up :: bool
  broker_up :: bool

text \<open>
  Everything a call can throw: an \<open>AppError\<close> (message, HTTP status, code) raised by a
  route, the plain \<open>Error\<close> of a missing queue, and the failures of the two backing
  services.
\<close>

datatype failure =
    AppError string nat string
  | QueueNotFound string
  | ValidationFailed
  | DuplicateKey
  | StoreUnavailable
  | BrokerUnavailable
  | RemoveFailed string

section \<open>Queue manager (services/queueManager.ts)\<close>

definition QUEUES :: "string list" where
  "QUEUES = [''business-discovery'', ''instagram-detection'', ''video-scraping'',
     ''video-analysis'', ''report-generation'', ''file-processing'', ''cleanup'',
     ''notifications'']"

definition JOB_TYPES :: "string list" where
  "JOB_TYPES = [''discover-competitors'', ''discover-with-instagram'', ''validate-business'',
     ''detect-instagram-profiles'', ''analyze-reels'', ''validate-instagram-profile'',
     ''scrape-instagram-videos'', ''download-video'', ''upload-to-storage'',
     ''analyze-video-content'', ''extract-metadata'', ''generate-insights'',
     ''generate-competitor-report'', ''generate-trend-analysis'', ''export-pdf-report'',
     ''process-video-upload'', ''clean-temp-files'', ''backup-data'',
     ''send-notification'', ''health-check-services'', ''cleanup-expired-jobs'']"

text \<open>JavaScript's \<open>x || d\<close> on an optional number: \<open>undefined\<close> and \<open>0\<close> are falsy.\<close>

definition js_or :: "int option \<Rightarrow> int \<Rightarrow> int" where
  "js_or x d = (case x of None \<Rightarrow> d | Some n \<Rightarrow> if n \<noteq> 0 then n else d)"

text \<open>\<open>!x\<close> on an optional string: \<open>undefined\<close> and the empty string are falsy.\<close>

definition absent :: "string option \<Rightarrow> bool" where
  "absent x = (case x of None \<Rightarrow> True | Some v \<Rightarrow> v = [])"

definition generateJobId :: "env \<Rightarrow> string" where
  "generateJobId e = ''job_'' @ id_suffix e"

definition createQueue :: "string \<Rightarrow> system \<Rightarrow> system" where
  "createQueue nm s = s\<lparr>queues := AList.update nm [] (queues s)\<rparr>"

definition addProcessor :: "string \<Rightarrow> string \<Rightarrow> system \<Rightarrow> failure + system" where
  "addProcessor queueName jobType s =
     (case map_of (queues s) queueName of
        None \<Rightarrow> Inl (QueueNotFound queueName)
      | Some q \<Rightarrow> Inr (s\<lparr>processors := List.insert (queueName, jobType) (processors s)\<rparr>))"

text \<open>The registrations of \<open>setupProcessors\<close>, in the order the source makes them.\<close>

definition registrations :: "(string \<times> string) list" where
  "registrations =
    [(''business-discovery'', ''discover-competitors''),
     (''business-discovery'', ''discover-with-instagram''),
     (''instagram-detection'', ''detect-instagram-profiles''),
     (''instagram-detection'', ''analyze-reels''),
     (''video-scraping'', ''scrape-instagram-videos''),
     (''video-scraping'', ''download-video''),
     (''video-analysis'', ''analyze-video-content''),
     (''video-analysis'', ''generate-insights''),
     (''report-generation'', ''generate-competitor-report''),
     (''cleanup'', ''cleanup-expired-jobs''),
     (''notifications'', ''send-notification'')]"

fun addProcessors :: "(string \<times> string) list \<Rightarrow> system \<Rightarrow> failure + system" where
  "addProcessors [] s = Inr s"
| "addProcessors ((q, t) # rest) s =
     (case addProcessor q t s of Inl err \<Rightarrow> Inl err | Inr s' \<Rightarrow> addProcessors rest s')"

definition setupProcessors :: "system \<Rightarrow> failure + system" where
  "setupProcessors s = addProcessors registrations s"

definition initialize :: "system \<Rightarrow> failure + system" where
  "initialize s = setupProcessors (fold createQueue QUEUES s)"

text \<open>
  \<open>jobDoc.save()\<close> of a new document. The schema makes \<open>jobId\<close>, \<open>queue\<close> and
  \<open>type\<close> required strings and \<open>jobId\<close> unique, so the insert is rejected for an
  empty required string and for a \<open>jobId\<close> already in the collection.
\<close>

definition save_new :: "env \<Rightarrow> job_doc \<Rightarrow> job_doc list \<Rightarrow> failure + job_doc list" where
  "save_new e d ds =
     (if jobId d = [] \<or> queue d = [] \<or> type d = [] then Inl ValidationFailed
      else if \<not> store_up e then Inl StoreUnavailable
      else if jobId d \<in> set (map jobId ds) then Inl DuplicateKey
      else Inr (ds @ [d]))"

text \<open>
  \<open>queue.add(name, data, opts)\<close>. Bull keeps a job whose id is already present and adds
  nothing; a job with a positive delay starts in the delayed set.
\<close>

definition bull_add :: "env \<Rightarrow> bull_job \<Rightarrow> bull_job list \<Rightarrow> failure + bull_job \<times> bull_job list" where
  "bull_add e b bs =
     (if \<not> broker_up e then Inl BrokerUnavailable
      else case find (\<lambda>x. bj_id x = bj_id b) bs of
             Some x \<Rightarrow> Inr (x, bs)
           | None \<Rightarrow> Inr (b, bs @ [b]))"

definition opt_attempts :: "job_options option \<Rightarrow> int option" where
  "opt_attempts options = (case options of None \<Rightarrow> None | Some opts \<Rightarrow> o_attempts opts)"

definition opt_delay :: "job_options option \<Rightarrow> int option" where
  "opt_delay options = (case options of None \<Rightarrow> None | Some opts \<Rightarrow> o_delay opts)"

definition opt_priority :: "job_options option \<Rightarrow> int option" where
  "opt_priority options = (case options of None \<Rightarrow> None | Some opts \<Rightarrow> o_priority opts)"

definition make_jobData :: "env \<Rightarrow> string \<Rightarrow> payload \<Rightarrow> job_options option \<Rightarrow> job_data" where
  "make_jobData e jobType d options =
     \<lparr>jd_id = (case p_id d of
                 None \<Rightarrow> generateJobId e
               | Some i \<Rightarrow> if i \<noteq> [] then i else generateJobId e),
      jd_type = jobType,
      jd_payload = d,
      jd_userId = p_userId d,
      jd_priority = js_or (p_priority d) 0,
      jd_attempts = js_or (opt_attempts options) 3,
      jd_delay = js_or (opt_delay options) 0,
      jd_timestamp = now e\<rparr>"

definition make_jobDoc :: "env \<Rightarrow> string \<Rightarrow> string \<Rightarrow> job_data \<Rightarrow> job_doc" where
  "make_jobDoc e queueName jobType jobData =
     \<lparr>jobId = jd_id jobData,
      queue = queueName,
      type = jobType,
      data = jd_payload jobData,
      userId = jd_userId jobData,
      status = Waiting,
      priority = jd_priority jobData,
      attempts = 0,
      maxAttempts = jd_attempts jobData,
      delay = jd_delay jobData,
      result = None,
      error = None,
      processingTime = None,
      createdAt = now e,
      startedAt = None,
      completedAt = None,
      failedAt = None,
      stalledAt = None\<rparr>"

definition make_bullJob :: "string \<Rightarrow> job_data \<Rightarrow> job_options option \<Rightarrow> bull_job" where
  "make_bullJob jobType jobData options =
     \<lparr>bj_id = jd_id jobData,
      bj_name = jobType,
      bj_data = jobData,
      bj_opts = \<lparr>o_attempts = opt_attempts options, o_delay = opt_delay options,
                 o_priority = opt_priority options\<rparr>,
      bj_state = (if js_or (opt_delay options) 0 > 0 then BDelayed else BWaiting)\<rparr>"

text \<open>
  \<open>addJob\<close> returns the Bull job or throws; either way the state it leaves behind is
  returned too, since the document is saved before the job is added to Bull.
\<close>

definition addJob ::
  "env \<Rightarrow> string \<Rightarrow> string \<Rightarrow> payload \<Rightarrow> job_options option \<Rightarrow> system
     \<Rightarrow> (failure + bull_job) \<times> system" where
  "addJob e queueName jobType d options s =
     (case map_of (queues s) queueName of
        None \<Rightarrow> (Inl (QueueNotFound queueName), s)
      | Some q \<Rightarrow>
          (let jobData = make_jobData e jobType d options;
               jobDoc = make_jobDoc e queueName jobType jobData
           in case save_new e jobDoc (job_docs s) of
                Inl err \<Rightarrow> (Inl err, s)
              | Inr ds \<Rightarrow>
                  (case bull_add e (make_bullJob jobType jobData options) q of
                     Inl err \<Rightarrow> (Inl err, s\<lparr>job_docs := ds\<rparr>)
                   | Inr (b, q') \<Rightarrow>
                       (Inr b, s\<lparr>job_docs := ds,
                                 queues := AList.update queueName q' (queues s)\<rparr>))))"

text \<open>
  The two stored fields that \<open>addJob\<close> derives rather than copies: the priority is
  the payload's \<open>priority || 0\<close>, and \<open>maxAttempts\<close> is \<open>options.attempts || 3\<close>,
  which is never 0. Every record \<open>addJob\<close> creates has this shape, and no other code
  writes these fields or the payload.
\<close>

definition addJob_shaped :: "job_doc \<Rightarrow> bool" where
  "addJob_shaped d = (priority d = js_or (p_priority (data d)) 0 \<and> maxAttempts d \<noteq> 0)"

text \<open>
  \<open>getJob\<close> asks each Bull queue in turn for the id and returns the first hit; the
  model also returns the name of the queue that holds it.
\<close>

fun getJob_in :: "string \<Rightarrow> (string \<times> bull_job list) list \<Rightarrow> (string \<times> bull_job) option" where
  "getJob_in jid [] = None"
| "getJob_in jid ((qn, bs) # rest) =
     (case find (\<lambda>b. bj_id b = jid) bs of
        Some b \<Rightarrow> Some (qn, b)
      | None \<Rightarrow> getJob_in jid rest)"

definition getJob :: "string \<Rightarrow> system \<Rightarrow> (string \<times> bull_job) option" where
  "getJob jid s = getJob_in jid (queues s)"

record queue_stat =
  st_waiting :: nat
  st_active :: nat
  st_completed :: nat
  st_failed :: nat
  st_delayed :: nat
  st_total :: nat

definition count_state :: "bull_state \<Rightarrow> bull_job list \<Rightarrow> nat" where
  "count_state st bs = length (filter (\<lambda>b. bj_state b = st) bs)"

definition stat_of :: "bull_job list \<Rightarrow> queue_stat" where
  "stat_of bs =
     \<lparr>st_waiting = count_state BWaiting bs,
      st_active = count_state BActive bs,
      st_completed = count_state BCompleted bs,
      st_failed = count_state BFailed bs,
      st_delayed = count_state BDelayed bs,
      st_total = count_state BWaiting bs + count_state BActive bs + count_state BCompleted bs
                 + count_state BFailed bs + count_state BDelayed bs\<rparr>"

text \<open>
  \<open>getQueueStats(queueName?)\<close> returns the whole object of per-queue statistics when
  no name is given, and the entry of the named queue (\<open>undefined\<close> for an unknown
  queue) when one is.
\<close>

datatype stats_result = AllStats "(string \<times> queue_stat) list" | OneStat "queue_stat option"

definition getQueueStats :: "string option \<Rightarrow> system \<Rightarrow> stats_result" where
  "getQueueStats queueName s =
     (if absent queueName
      then AllStats (map (\<lambda>(n, bs). (n, stat_of bs)) (queues s))
      else (case queueName of
              None \<Rightarrow> OneStat None
            | Some n \<Rightarrow> OneStat (map_option stat_of (map_of (queues s) n))))"

text \<open>Updating the first document a query matches, as \<open>findOneAndUpdate\<close> and \<open>save\<close> do.\<close>

fun update_first :: "('a \<Rightarrow> bool) \<Rightarrow> ('a \<Rightarrow> 'a) \<Rightarrow> 'a list \<Rightarrow> 'a list" where
  "update_first P f [] = []"
| "update_first P f (x # xs) = (if P x then f x # xs else x # update_first P f xs)"

text \<open>The Bull event handlers write the job's progress into the store.\<close>

definition onJobActive :: "env \<Rightarrow> string \<Rightarrow> system \<Rightarrow> system" where
  "onJobActive e jid s =
     (if \<not> store_up e then s
      else s\<lparr>job_docs := update_first (\<lambda>d. jobId d = jid)
                 (\<lambda>d. d\<lparr>status := Active, startedAt := Some (now e)\<rparr>) (job_docs s)\<rparr>)"

definition onJobStalled :: "env \<Rightarrow> string \<Rightarrow> system \<Rightarrow> system" where
  "onJobStalled e jid s =
     (if \<not> store_up e then s
      else s\<lparr>job_docs := update_first (\<lambda>d. jobId d = jid)
                 (\<lambda>d. d\<lparr>status := Stalled, stalledAt := Some (now e)\<rparr>) (job_docs s)\<rparr>)"

definition onJobCompleted :: "env \<Rightarrow> string \<Rightarrow> string \<Rightarrow> int \<Rightarrow> system \<Rightarrow> system" where
  "onJobCompleted e jid res ms s =
     (if \<not> store_up e then s
      else s\<lparr>job_docs := update_first (\<lambda>d. jobId d = jid)
                 (\<lambda>d. d\<lparr>status := Completed, result := Some res,
                         completedAt := Some (now e), processingTime := Some ms\<rparr>)
                 (job_docs s)\<rparr>)"

definition onJobFailed :: "env \<Rightarrow> string \<Rightarrow> string \<Rightarrow> int \<Rightarrow> system \<Rightarrow> system" where
  "onJobFailed e jid msg attemptsMade s =
     (if \<not> store_up e then s
      else s\<lparr>job_docs := update_first (\<lambda>d. jobId d = jid)
                 (\<lambda>d. d\<lparr>status := Failed, error := Some msg, failedAt := Some (now e),
                         attempts := attemptsMade\<rparr>)
                 (job_docs s)\<rparr>)"

text \<open>
  One reservation by a worker of the queue \<open>qn\<close>. \<open>addProcessor\<close> hands each
  processor to \<open>queue.process(jobType, 5, ...)\<close>; Bull then takes the oldest waiting job
  whose name has a processor with a free slot (five per job type), makes it active and
  emits \<open>active\<close>. The decision reads the Bull queue and the registered processors and
  nothing else (Bull's own priority option apart, which no step here depends on).
\<close>

definition reserve :: "string \<Rightarrow> system \<Rightarrow> bull_job option" where
  "reserve qn s =
     (case map_of (queues s) qn of
        None \<Rightarrow> None
      | Some bs \<Rightarrow>
          find (\<lambda>b. bj_state b = BWaiting \<and> (qn, bj_name b) \<in> set (processors s) \<and>
                    length (filter (\<lambda>x. bj_state x = BActive \<and> bj_name x = bj_name b) bs) < 5) bs)"

definition worker_step :: "env \<Rightarrow> string \<Rightarrow> system \<Rightarrow> system" where
  "worker_step e qn s =
     (case reserve qn s of
        None \<Rightarrow> s
      | Some b \<Rightarrow>
          onJobActive e (bj_id b)
            (s\<lparr>queues := AList.map_entry qn
                  (update_first (\<lambda>x. bj_id x = bj_id b) (\<lambda>x. x\<lparr>bj_state := BActive\<rparr>))
                  (queues s)\<rparr>))"


section \<open>Job routes (routes/jobs.ts)\<close>

record request =
  x_user_id :: "string option"
  x_user_role :: "string option"

record create_body =
  b_queue :: "string option"
  b_type :: "string option"
  b_data :: "payload option"
  b_options :: "job_options option"

definition auth_required :: failure where
  "auth_required = AppError ''User authentication required'' 401 ''AUTH_REQUIRED''"

definition access_denied :: failure where
  "access_denied = AppError ''Access denied'' 403 ''FORBIDDEN''"

definition admin_required :: failure where
  "admin_required = AppError ''Admin access required'' 403 ''FORBIDDEN''"

definition job_not_found :: failure where
  "job_not_found = AppError ''Job not found'' 404 ''JOB_NOT_FOUND''"

definition queue_not_found :: failure where
  "queue_not_found = AppError ''Queue not found'' 404 ''QUEUE_NOT_FOUND''"

definition invalid_queue :: failure where
  "invalid_queue = AppError ''Invalid queue name'' 400 ''INVALID_QUEUE''"

definition invalid_job_type :: failure where
  "invalid_job_type = AppError ''Invalid job type'' 400 ''INVALID_JOB_TYPE''"

definition not_cancellable :: failure where
  "not_cancellable = AppError ''Cannot cancel completed or failed job'' 400 ''JOB_NOT_CANCELLABLE''"

definition not_retryable :: failure where
  "not_retryable = AppError ''Only failed jobs can be retried'' 400 ''JOB_NOT_RETRYABLE''"

text \<open>\<open>POST /\<close>: create a job. The result is the new job's id.\<close>

definition post_job :: "env \<Rightarrow> request \<Rightarrow> create_body \<Rightarrow> system \<Rightarrow> (failure + string) \<times> system" where
  "post_job e req body s =
     (if absent (x_user_id req) then (Inl auth_required, s)
      else (case (b_queue body, b_type body, b_data body) of
              (Some q, Some t, Some d) \<Rightarrow>
                if q = [] \<or> t = [] then
                  (Inl (AppError ''Queue, type, and data are required'' 400 ''VALIDATION_ERROR''), s)
                else if q \<notin> set QUEUES then (Inl invalid_queue, s)
                else if t \<notin> set JOB_TYPES then (Inl invalid_job_type, s)
                else (case addJob e q t (d\<lparr>p_userId := x_user_id req\<rparr>) (b_options body) s of
                        (Inl err, s') \<Rightarrow> (Inl err, s')
                      | (Inr job, s') \<Rightarrow> (Inr (bj_id job), s'))
            | _ \<Rightarrow> (Inl (AppError ''Queue, type, and data are required'' 400 ''VALIDATION_ERROR''), s)))"


definition remove_job :: "string \<Rightarrow> string \<Rightarrow> system \<Rightarrow> system" where
  "remove_job qn jid s =
     s\<lparr>queues := AList.map_entry qn (filter (\<lambda>x. bj_id x \<noteq> jid)) (queues s)\<rparr>"

definition cancel_bull :: "env \<Rightarrow> string \<Rightarrow> system \<Rightarrow> failure + system" where
  "cancel_bull e jid s =
     (if queues s \<noteq> [] \<and> \<not> broker_up e then Inl BrokerUnavailable
      else (case getJob jid s of
              None \<Rightarrow> Inr s
            | Some (qn, b) \<Rightarrow>
                if bj_state b = BActive then Inl (RemoveFailed jid)
                else Inr (remove_job qn jid s)))"

text \<open>Whether the Bull queue \<open>qn\<close> holds a job with the id \<open>jid\<close>.\<close>

definition holds :: "string \<Rightarrow> string \<Rightarrow> system \<Rightarrow> bool" where
  "holds qn jid s =
     (case map_of (queues s) qn of None \<Rightarrow> False | Some bs \<Rightarrow> jid \<in> set (map bj_id bs))"

definition may_access :: "request \<Rightarrow> job_doc \<Rightarrow> bool" where
  "may_access req jobDoc = (x_user_role req = Some ''admin'' \<or> userId jobDoc = x_user_id req)"

text \<open>\<open>DELETE /:jobId\<close>: cancel a job.\<close>

definition delete_job :: "env \<Rightarrow> request \<Rightarrow> string \<Rightarrow> system \<Rightarrow> (failure + string) \<times> system" where
  "delete_job e req jid s =
     (if absent (x_user_id req) then (Inl auth_required, s)
      else if \<not> store_up e then (Inl StoreUnavailable, s)
      else (case find (\<lambda>d. jobId d = jid) (job_docs s) of
              None \<Rightarrow> (Inl job_not_found, s)
            | Some jobDoc \<Rightarrow>
                if \<not> may_access req jobDoc then (Inl access_denied, s)
                else if status jobDoc = Completed \<or> status jobDoc = Failed
                  then (Inl not_cancellable, s)
                else (case cancel_bull e jid s of
                        Inl err \<Rightarrow> (Inl err, s)
                      | Inr s1 \<Rightarrow>
                          (Inr ''Job cancelled successfully'',
                           s1\<lparr>job_docs := update_first (\<lambda>d. jobId d = jid)
                                 (\<lambda>d. d\<lparr>status := Failed, error := Some ''Cancelled by user'',
                                         failedAt := Some (now e)\<rparr>)
                                 (job_docs s1)\<rparr>))))"

text \<open>\<open>POST /:jobId/retry\<close>: the result is the pair (new job id, original job id).\<close>

definition retry_job ::
  "env \<Rightarrow> request \<Rightarrow> string \<Rightarrow> system \<Rightarrow> (failure + string \<times> string) \<times> system" where
  "retry_job e req jid s =
     (if absent (x_user_id req) then (Inl auth_required, s)
      else if \<not> store_up e then (Inl StoreUnavailable, s)
      else (case find (\<lambda>d. jobId d = jid) (job_docs s) of
              None \<Rightarrow> (Inl job_not_found, s)
            | Some jobDoc \<Rightarrow>
                if \<not> may_access req jobDoc then (Inl access_denied, s)
                else if status jobDoc \<noteq> Failed then (Inl not_retryable, s)
                else (case addJob e (queue jobDoc) (type jobDoc) (data jobDoc)
                             (Some \<lparr>o_attempts = Some (maxAttempts jobDoc), o_delay = None,
                                    o_priority = Some (priority jobDoc)\<rparr>) s of
                        (Inl err, s') \<Rightarrow> (Inl err, s')
                      | (Inr newJob, s') \<Rightarrow> (Inr (bj_id newJob, jid), s'))))"

text \<open>
  \<open>POST /bulk/cancel\<close>. The loop visits the documents the query returned, in store
  order; each visit is wrapped in its own \<open>try\<close>, so a failure becomes an entry of the
  result list.
\<close>

datatype bulk_outcome = BulkSkipped | BulkCancelled | BulkError failure

fun bulk_loop ::
  "env \<Rightarrow> (job_doc \<Rightarrow> bool) \<Rightarrow> job_doc list \<Rightarrow> system
     \<Rightarrow> job_doc list \<times> (string \<times> bulk_outcome) list \<times> system" where
  "bulk_loop e sel [] s = ([], [], s)"
| "bulk_loop e sel (job # rest) s =
     (if \<not> sel job then
        (case bulk_loop e sel rest s of (ds, rs, s') \<Rightarrow> (job # ds, rs, s'))
      else if status job = Completed \<or> status job = Failed then
        (case bulk_loop e sel rest s of
           (ds, rs, s') \<Rightarrow> (job # ds, (jobId job, BulkSkipped) # rs, s'))
      else (case cancel_bull e (jobId job) s of
              Inl err \<Rightarrow>
                (case bulk_loop e sel rest s of
                   (ds, rs, s') \<Rightarrow> (job # ds, (jobId job, BulkError err) # rs, s'))
            | Inr s1 \<Rightarrow>
                (case bulk_loop e sel rest s1 of
                   (ds, rs, s') \<Rightarrow>
                     (job\<lparr>status := Failed, error := Some ''Bulk cancelled by user'',
                          failedAt := Some (now e)\<rparr> # ds,
                      (jobId job, BulkCancelled) # rs, s'))))"

definition bulk_cancel ::
  "env \<Rightarrow> request \<Rightarrow> string list option \<Rightarrow> system
     \<Rightarrow> (failure + (string \<times> bulk_outcome) list) \<times> system" where
  "bulk_cancel e req jobIds s =
     (if absent (x_user_id req) then (Inl auth_required, s)
      else (case jobIds of
              None \<Rightarrow> (Inl (AppError ''Job IDs array is required'' 400 ''VALIDATION_ERROR''), s)
            | Some ids \<Rightarrow>
                if ids = [] then
                  (Inl (AppError ''Job IDs array is required'' 400 ''VALIDATION_ERROR''), s)
                else if \<not> store_up e then (Inl StoreUnavailable, s)
                else (case bulk_loop e
                             (\<lambda>d. jobId d \<in> set ids \<and>
                                  (x_user_role req = Some ''admin'' \<or> userId d = x_user_id req))
                             (job_docs s) s of
                        (ds, rs, s') \<Rightarrow> (Inr rs, s'\<lparr>job_docs := ds\<rparr>))))"

section \<open>Queue routes (routes/queues.ts)\<close>

text \<open>
  A queue document created by an upsert takes the schema's defaults; \<open>lastHealthCheck\<close>
  defaults to the time of creation.
\<close>

definition default_queue_doc :: "env \<Rightarrow> string \<Rightarrow> queue_doc" where
  "default_queue_doc e qn =
     \<lparr>name = qn, description = None, isActive = True,
      totalJobs = 0, completedJobs = 0, failedJobs = 0, activeJobs = 0, waitingJobs = 0,
      delayedJobs = 0, processingRate = 0, averageProcessingTime = 0, lastProcessedAt = None,
      configuration = \<lparr>concurrency = 5, retryAttempts = 3, retryDelay = 2000,
                        removeOnComplete = 100, removeOnFail = 50\<rparr>,
      healthStatus = Healthy, lastHealthCheck = now e\<rparr>"

text \<open>\<open>QueueModel.findOneAndUpdate({name}, update, {upsert: true})\<close>.\<close>

definition upsert_queue :: "env \<Rightarrow> string \<Rightarrow> (queue_doc \<Rightarrow> queue_doc) \<Rightarrow> queue_doc list \<Rightarrow> queue_doc list" where
  "upsert_queue e qn f qs =
     (if qn \<in> set (map name qs) then update_first (\<lambda>q. name q = qn) f qs
      else qs @ [f (default_queue_doc e qn)])"

definition set_active :: "bool \<Rightarrow> env \<Rightarrow> request \<Rightarrow> string \<Rightarrow> system \<Rightarrow> (failure + string) \<times> system" where
  "set_active flag e req queueName s =
     (if x_user_role req \<noteq> Some ''admin'' then (Inl admin_required, s)
      else if queueName \<notin> set QUEUES then (Inl queue_not_found, s)
      else if \<not> store_up e then (Inl StoreUnavailable, s)
      else (Inr (''Queue '' @ queueName @ (if flag then '' resumed'' else '' paused'')),
            s\<lparr>queue_docs := upsert_queue e queueName (\<lambda>q. q\<lparr>isActive := flag\<rparr>) (queue_docs s)\<rparr>))"

text \<open>\<open>POST /:queueName/pause\<close> and \<open>POST /:queueName/resume\<close>.\<close>

definition pause_queue :: "env \<Rightarrow> request \<Rightarrow> string \<Rightarrow> system \<Rightarrow> (failure + string) \<times> system" where
  "pause_queue = set_active False"

definition resume_queue :: "env \<Rightarrow> request \<Rightarrow> string \<Rightarrow> system \<Rightarrow> (failure + string) \<times> system" where
  "resume_queue = set_active True"

text \<open>
  \<open>POST /:queueName/clean\<close>. The body's \<open>olderThan\<close> defaults to 24 hours and its
  \<open>status\<close> to \<open>completed\<close>. The filter always constrains the queue and the creation
  time; a status constraint is added for the three values the route knows. When the
  cutoff is not a valid date the filter matches no job.
\<close>

record clean_body =
  c_olderThan :: "int option"
  c_status :: "string option"

text \<open>
  A JavaScript \<open>Date\<close> holds a time value of at most 8.64e15 milliseconds either side
  of the epoch; \<open>new Date(t)\<close> for any other \<open>t\<close> is an Invalid Date, which
  no stored date is below.
\<close>

definition valid_time :: "int \<Rightarrow> bool" where
  "valid_time t = (- 8640000000000000 \<le> t \<and> t \<le> 8640000000000000)"

definition clean_filter :: "string \<Rightarrow> time \<Rightarrow> string \<Rightarrow> job_doc \<Rightarrow> bool" where
  "clean_filter queueName cutoffDate st j =
     (queue j = queueName \<and> createdAt j < cutoffDate \<and>
      (if st = ''completed'' then status j = Completed
       else if st = ''failed'' then status j = Failed
       else if st = ''all'' then (status j = Completed \<or> status j = Failed)
       else True))"

definition clean_queue :: "env \<Rightarrow> request \<Rightarrow> string \<Rightarrow> clean_body \<Rightarrow> system \<Rightarrow> (failure + nat) \<times> system" where
  "clean_queue e req queueName body s =
     (if x_user_role req \<noteq> Some ''admin'' then (Inl admin_required, s)
      else
        (let olderThan = (case c_olderThan body of None \<Rightarrow> 24 * 60 * 60 * 1000 | Some v \<Rightarrow> v);
             st = (case c_status body of None \<Rightarrow> ''completed'' | Some v \<Rightarrow> v)
         in if queueName \<notin> set QUEUES then (Inl queue_not_found, s)
            else if \<not> store_up e then (Inl StoreUnavailable, s)
            else
              (let cutoffDate = now e - olderThan
               in if \<not> valid_time cutoffDate then (Inr 0, s)
                  else (Inr (length (filter (clean_filter queueName cutoffDate st) (job_docs s))),
                        s\<lparr>job_docs := filter (\<lambda>j. \<not> clean_filter queueName cutoffDate st j)
                                         (job_docs s)\<rparr>))))"

section \<open>Scheduler (services/scheduler.ts) and its routes\<close>

text \<open>
  The health evaluation, written twice in the source with the same text (in
  \<open>performHealthChecks\<close> and in \<open>GET /health\<close>): start from healthy, overwrite with
  warning, then overwrite with error. The counts are array lengths; the product
  \<open>completed * 0.1\<close> is taken exactly. The source computes it in double precision,
  where 0.1 is rounded up by one part in \<open>2^54\<close>: for counts below \<open>10^14\<close>
  the rounded product lies on the same side of \<open>failed\<close> as the exact one, so the
  comparison has the same outcome.
\<close>

definition health_eval :: "nat \<Rightarrow> nat \<Rightarrow> health_status" where
  "health_eval failed completed =
     (let healthStatus = Healthy;
          healthStatus = (if failed > 10 \<and> real failed > real completed * 0.1
                          then Warning else healthStatus);
          healthStatus = (if failed > completed then Error else healthStatus)
      in healthStatus)"

record queue_health =
  qh_name :: string
  qh_status :: health_status
  qh_active :: nat
  qh_waiting :: nat
  qh_completed :: nat
  qh_failed :: nat
  qh_total :: nat

record health_summary =
  hs_overall :: health_status
  hs_queues :: "queue_health list"

definition queue_health_of :: "string \<times> queue_stat \<Rightarrow> queue_health" where
  "queue_health_of entry =
     (case entry of (nm, queueStat) \<Rightarrow>
        \<lparr>qh_name = nm,
         qh_status = health_eval (st_failed queueStat) (st_completed queueStat),
         qh_active = st_active queueStat,
         qh_waiting = st_waiting queueStat,
         qh_completed = st_completed queueStat,
         qh_failed = st_failed queueStat,
         qh_total = st_total queueStat\<rparr>)"

text \<open>\<open>GET /health\<close> of the scheduler routes.\<close>

definition get_health :: "env \<Rightarrow> request \<Rightarrow> system \<Rightarrow> failure + health_summary" where
  "get_health e req s =
     (if x_user_role req \<noteq> Some ''admin'' then Inl admin_required
      else if \<not> store_up e then Inl StoreUnavailable
      else if queues s \<noteq> [] \<and> \<not> broker_up e then Inl BrokerUnavailable
      else (case getQueueStats None s of
              OneStat x \<Rightarrow> Inr \<lparr>hs_overall = Healthy, hs_queues = []\<rparr>
            | AllStats queueStats \<Rightarrow>
                (let qs = map queue_health_of queueStats;
                     hasErrors = (Error \<in> set (map qh_status qs));
                     hasWarnings = (Warning \<in> set (map qh_status qs))
                 in Inr \<lparr>hs_overall = (if hasErrors then Error
                                        else if hasWarnings then Warning else Healthy),
                         hs_queues = qs\<rparr>)))"

text \<open>
  \<open>performHealthChecks\<close>. For each queue name it calls \<open>getQueueStats(queueName)\<close>,
  which already returns that queue's entry, and then reads the property named
  \<open>queueName\<close> of that entry (only for an empty name does \<open>getQueueStats\<close> return
  the whole object, whose property is the entry). An entry has the six properties below, so for a name
  that is none of them the read gives \<open>undefined\<close> and the loop moves on; reading a
  property of \<open>undefined\<close> throws, which ends the loop inside the function's
  \<open>try\<close>. When the read does give a number, a non-zero one passes the guard, its
  \<open>failed\<close> and \<open>completed\<close> are \<open>undefined\<close>, both comparisons are false, and the
  queue document is written as healthy (the \<open>undefined\<close> counts are not written).
\<close>

definition stat_prop :: "queue_stat \<Rightarrow> string \<Rightarrow> nat option" where
  "stat_prop st k =
     (if k = ''waiting'' then Some (st_waiting st)
      else if k = ''active'' then Some (st_active st)
      else if k = ''completed'' then Some (st_completed st)
      else if k = ''failed'' then Some (st_failed st)
      else if k = ''delayed'' then Some (st_delayed st)
      else if k = ''total'' then Some (st_total st)
      else None)"

fun health_check_loop :: "env \<Rightarrow> string list \<Rightarrow> system \<Rightarrow> system" where
  "health_check_loop e [] s = s"
| "health_check_loop e (queueName # rest) s =
     (case getQueueStats (Some queueName) s of
        AllStats every \<Rightarrow>
          (case map_of every queueName of
             None \<Rightarrow> health_check_loop e rest s
           | Some queueStats \<Rightarrow>
               health_check_loop e rest
                 (s\<lparr>queue_docs := upsert_queue e queueName
                       (\<lambda>q. q\<lparr>name := queueName,
                               totalJobs := st_total queueStats,
                               completedJobs := st_completed queueStats,
                               failedJobs := st_failed queueStats,
                               activeJobs := st_active queueStats,
                               waitingJobs := st_waiting queueStats,
                               delayedJobs := st_delayed queueStats,
                               healthStatus := health_eval (st_failed queueStats)
                                                 (st_completed queueStats),
                               lastHealthCheck := now e\<rparr>) (queue_docs s)\<rparr>))
      | OneStat None \<Rightarrow> s
      | OneStat (Some stats) \<Rightarrow>
          (case stat_prop stats queueName of
             None \<Rightarrow> health_check_loop e rest s
           | Some n \<Rightarrow>
               if n = 0 then health_check_loop e rest s
               else health_check_loop e rest
                      (s\<lparr>queue_docs := upsert_queue e queueName
                            (\<lambda>q. q\<lparr>name := queueName, healthStatus := Healthy,
                                    lastHealthCheck := now e\<rparr>) (queue_docs s)\<rparr>)))"

definition performHealthChecks :: "env \<Rightarrow> system \<Rightarrow> system" where
  "performHealthChecks e s =
     (if \<not> broker_up e then s
      else if \<not> store_up e then s
      else health_check_loop e QUEUES s)"

text \<open>
  \<open>updateQueueStatistics\<close>. For each queue: the jobs completed in the last hour, their
  number, the mean of their processing times and the latest completion time; an
  \<open>undefined\<close> latest time leaves the stored field as it is.
\<close>

definition recentJobs :: "env \<Rightarrow> string \<Rightarrow> job_doc list \<Rightarrow> job_doc list" where
  "recentJobs e queueName ds =
     filter (\<lambda>j. queue j = queueName \<and> status j = Completed \<and>
                 (case completedAt j of None \<Rightarrow> False
                  | Some t \<Rightarrow> t \<ge> now e - 60 * 60 * 1000)) ds"

definition completed_time :: "job_doc \<Rightarrow> time" where
  "completed_time j = (case completedAt j of None \<Rightarrow> 0 | Some t \<Rightarrow> t)"

definition lastProcessed :: "job_doc list \<Rightarrow> time option" where
  "lastProcessed recent =
     (case sort_key (\<lambda>j. - completed_time j) recent of
        [] \<Rightarrow> None
      | j # rest \<Rightarrow> completedAt j)"

definition averageOf :: "job_doc list \<Rightarrow> rat" where
  "averageOf recent =
     (if length recent > 0
      then of_int (foldl (\<lambda>sum job. sum + js_or (processingTime job) 0) 0 recent)
           / of_nat (length recent)
      else 0)"

definition update_queue_stats :: "env \<Rightarrow> string \<Rightarrow> system \<Rightarrow> system" where
  "update_queue_stats e queueName s =
     (let recent = recentJobs e queueName (job_docs s)
      in s\<lparr>queue_docs := upsert_queue e queueName
             (\<lambda>q. q\<lparr>processingRate := of_nat (length recent),
                     averageProcessingTime := averageOf recent,
                     lastProcessedAt := (case lastProcessed recent of
                                           None \<Rightarrow> lastProcessedAt q
                                         | Some t \<Rightarrow> Some t)\<rparr>)
             (queue_docs s)\<rparr>)"

definition updateQueueStatistics :: "env \<Rightarrow> system \<Rightarrow> system" where
  "updateQueueStatistics e s =
     (if \<not> store_up e then s else fold (update_queue_stats e) QUEUES s)"

text \<open>
  \<open>processStalledJobs\<close>: the documents that have been stalled for more than thirty
  minutes are failed when their attempts are used up and reset to waiting otherwise.
  Only the job collection is written.
\<close>

definition stalled_long :: "env \<Rightarrow> job_doc \<Rightarrow> bool" where
  "stalled_long e job =
     (status job = Stalled \<and>
      (case stalledAt job of None \<Rightarrow> False | Some t \<Rightarrow> t < now e - 30 * 60 * 1000))"

definition sweep_job :: "env \<Rightarrow> job_doc \<Rightarrow> job_doc" where
  "sweep_job e job =
     (if attempts job \<ge> maxAttempts job
      then job\<lparr>status := Failed,
               error := Some ''Job stalled and exceeded maximum retry attempts'',
               failedAt := Some (now e)\<rparr>
      else job\<lparr>status := Waiting, attempts := attempts job + 1\<rparr>)"

definition processStalledJobs :: "env \<Rightarrow> system \<Rightarrow> system" where
  "processStalledJobs e s =
     (if \<not> store_up e then s
      else s\<lparr>job_docs := map (\<lambda>job. if stalled_long e job then sweep_job e job else job)
                            (job_docs s)\<rparr>)"

section \<open>States and requests used in the examples\<close>

definition empty_system :: system where
  "empty_system = \<lparr>job_docs = [], queue_docs = [], queues = [], processors = []\<rparr>"

text \<open>The state \<open>initialize\<close> leaves behind: eight empty queues, eleven processors.\<close>

definition started_system :: system where
  "started_system = \<lparr>job_docs = [], queue_docs = [],
     queues = map (\<lambda>q. (q, [])) QUEUES, processors = rev registrations\<rparr>"

definition env_ok :: env where
  "env_ok = \<lparr>now = 1700000000000, id_suffix = ''1700000000000_k3x9q2m1z'',
     store_up = True, broker_up = True\<rparr>"

definition plain_payload :: payload where
  "plain_payload = \<lparr>p_id = None, p_userId = Some ''u1'', p_priority = None,
     p_rest = [(''msg'', ''hi'')]\<rparr>"


definition env_broker_down :: env where
  "env_broker_down = env_ok\<lparr>broker_up := False\<rparr>"

definition user_req :: request where
  "user_req = \<lparr>x_user_id = Some ''u1'', x_user_role = Some ''user''\<rparr>"

definition admin_req :: request where
  "admin_req = \<lparr>x_user_id = Some ''root'', x_user_role = Some ''admin''\<rparr>"

definition stray_body :: create_body where
  "stray_body = \<lparr>b_queue = Some ''cleanup'', b_type = Some ''send-notification'',
     b_data = Some plain_payload, b_options = None\<rparr>"

definition unknown_type_body :: create_body where
  "unknown_type_body = \<lparr>b_queue = Some ''cleanup'', b_type = Some ''mine-bitcoin'',
     b_data = Some plain_payload, b_options = None\<rparr>"

definition base_doc :: job_doc where
  "base_doc = \<lparr>jobId = ''j1'', queue = ''cleanup'', type = ''cleanup-expired-jobs'',
     data = plain_payload, userId = Some ''u1'', status = Waiting, priority = 0, attempts = 0,
     maxAttempts = 3, delay = 0, result = None, error = None, processingTime = None,
     createdAt = 1600000000000, startedAt = None, completedAt = None, failedAt = None,
     stalledAt = None\<rparr>"

definition backlog_system :: system where
  "backlog_system = started_system\<lparr>job_docs :=
     [base_doc,
      base_doc\<lparr>jobId := ''j2'', status := Active\<rparr>,
      base_doc\<lparr>jobId := ''j3'', status := Stalled\<rparr>,
      base_doc\<lparr>jobId := ''j4'', createdAt := 1699999999000\<rparr>]\<rparr>"

definition odd_status_body :: clean_body where
  "odd_status_body = \<lparr>c_olderThan = None, c_status = Some ''everything''\<rparr>"

definition stalled_system :: system where
  "stalled_system = started_system\<lparr>job_docs :=
     [base_doc\<lparr>jobId := ''j5'', status := Stalled, attempts := 1,
               stalledAt := Some 1699990000000\<rparr>]\<rparr>"

definition active_doc :: job_doc where
  "active_doc = base_doc\<lparr>jobId := ''j6'', status := Active, attempts := 1,
     startedAt := Some 1699999990000\<rparr>"

definition active_system :: system where
  "active_system = started_system\<lparr>job_docs := [active_doc]\<rparr>"

definition failed_doc :: "string \<Rightarrow> job_doc" where
  "failed_doc jid = base_doc\<lparr>jobId := jid, status := Failed, attempts := 3,
     error := Some ''boom'', failedAt := Some 1699999000000\<rparr>"

definition failed_pair_system :: system where
  "failed_pair_system = started_system\<lparr>job_docs := [failed_doc ''j7'', failed_doc ''j8'']\<rparr>"

definition retry_options :: "job_options option" where
  "retry_options = Some \<lparr>o_attempts = Some 3, o_delay = None, o_priority = Some 0\<rparr>"

definition queued_system :: system where
  "queued_system = snd (addJob env_ok ''notifications'' ''send-notification'' plain_payload None
                          started_system)"

definition done_doc :: "string \<Rightarrow> int \<Rightarrow> time \<Rightarrow> job_doc" where
  "done_doc jid ms t = base_doc\<lparr>jobId := jid, status := Completed, attempts := 1,
     processingTime := Some ms, createdAt := 1699999000000, startedAt := Some (t - ms),
     completedAt := Some t\<rparr>"

definition metrics_system :: system where
  "metrics_system = started_system\<lparr>job_docs :=
     [done_doc ''j9'' 40 1699999970000, done_doc ''j10'' 60 1699999980000]\<rparr>"

text \<open>The Bull job that \<open>addJob\<close> without options makes for a record, in a given state.\<close>

definition bull_of :: "job_doc \<Rightarrow> bull_state \<Rightarrow> bull_job" where
  "bull_of d st =
     \<lparr>bj_id = jobId d, bj_name = type d,
      bj_data = \<lparr>jd_id = jobId d, jd_type = type d, jd_payload = data d, jd_userId = userId d,
                 jd_priority = priority d, jd_attempts = maxAttempts d, jd_delay = delay d,
                 jd_timestamp = createdAt d\<rparr>,
      bj_opts = \<lparr>o_attempts = None, o_delay = None, o_priority = None\<rparr>,
      bj_state = st\<rparr>"








text \<open>Two failed jobs and no completed one in the cleanup queue.\<close>

definition troubled_system :: system where
  "troubled_system = started_system\<lparr>job_docs := [failed_doc ''j7'', failed_doc ''j8''],
     queue_docs := [(default_queue_doc env_ok ''cleanup'')\<lparr>lastHealthCheck := 1699990000000\<rparr>],
     queues := AList.update ''cleanup''
       [bull_of (failed_doc ''j7'') BFailed, bull_of (failed_doc ''j8'') BFailed]
       (queues started_system)\<rparr>"

section \<open>Facts about the queue manager\<close>

lemma initialize_started: "initialize empty_system = Inr started_system"
  by (simp add: initialize_def setupProcessors_def registrations_def QUEUES_def
      createQueue_def empty_system_def started_system_def addProcessor_def)

lemma started_fields:
  "job_docs started_system = []" "queue_docs started_system = []"
  "map_of (queues started_system) ''notifications'' = Some []"
  "map_of (queues started_system) ''cleanup'' = Some []"
  by (simp_all add: started_system_def QUEUES_def)

lemma env_ok_fields: "store_up env_ok" "broker_up env_ok" "now env_ok = 1700000000000"
  "id_suffix env_ok = ''1700000000000_k3x9q2m1z''"
  by (simp_all add: env_ok_def)

lemma jd_id_nonempty: "jd_id (make_jobData e t d opts) \<noteq> []"
  by (simp add: make_jobData_def generateJobId_def split: option.splits)

text \<open>What \<open>addJob\<close> leaves in the job collection: nothing new, or exactly the new document.\<close>

lemma addJob_docs:
  assumes "addJob e q t d opts s = (r, s')"
  shows "job_docs s' = job_docs s \<or>
         (jobId (make_jobDoc e q t (make_jobData e t d opts)) \<notin> set (map jobId (job_docs s)) \<and>
          store_up e \<and> map_of (queues s) q \<noteq> None \<and>
          job_docs s' = job_docs s @ [make_jobDoc e q t (make_jobData e t d opts)])"
  using assms
  by (auto simp: addJob_def save_new_def Let_def
      split: option.splits sum.splits if_splits prod.splits)

text \<open>The successful run of \<open>addJob\<close>, spelled out.\<close>

lemma addJob_ok:
  assumes "map_of (queues s) q = Some bs" "store_up e" "broker_up e" "t \<noteq> []" "q \<noteq> []"
    and "jd_id (make_jobData e t d opts) \<notin> set (map jobId (job_docs s))"
    and "find (\<lambda>x. bj_id x = jd_id (make_jobData e t d opts)) bs = None"
  shows "addJob e q t d opts s =
           (Inr (make_bullJob t (make_jobData e t d opts) opts),
            s\<lparr>job_docs := job_docs s @ [make_jobDoc e q t (make_jobData e t d opts)],
              queues := AList.update q (bs @ [make_bullJob t (make_jobData e t d opts) opts])
                          (queues s)\<rparr>)"
  using assms jd_id_nonempty[of e t d opts]
  by (simp add: addJob_def save_new_def bull_add_def Let_def make_jobDoc_def make_bullJob_def)


lemma queued_system_eq:
  "queued_system = started_system\<lparr>job_docs := job_docs started_system @
        [make_jobDoc env_ok ''notifications'' ''send-notification''
           (make_jobData env_ok ''send-notification'' plain_payload None)],
      queues := AList.update ''notifications''
        ([] @ [make_bullJob ''send-notification''
           (make_jobData env_ok ''send-notification'' plain_payload None) None])
        (queues started_system)\<rparr>"
  unfolding queued_system_def
  by (subst addJob_ok[where bs = "[]"]) (simp_all add: started_fields env_ok_fields)


lemma queued_job_id:
  "jd_id (make_jobData env_ok ''send-notification'' plain_payload None) =
     ''job_1700000000000_k3x9q2m1z''"
  by (simp add: make_jobData_def plain_payload_def generateJobId_def env_ok_fields)

section \<open>Submitting a job\<close>



lemma addJob_broker_down:
  assumes "map_of (queues s) q = Some bs" "store_up e" "\<not> broker_up e" "t \<noteq> []" "q \<noteq> []"
    and "jd_id (make_jobData e t d opts) \<notin> set (map jobId (job_docs s))"
  shows "addJob e q t d opts s =
           (Inl BrokerUnavailable,
            s\<lparr>job_docs := job_docs s @ [make_jobDoc e q t (make_jobData e t d opts)]\<rparr>)"
  using assms jd_id_nonempty[of e t d opts]
  by (simp add: addJob_def save_new_def bull_add_def Let_def make_jobDoc_def)

lemma addJob_outcomes:
  assumes "addJob e q t d opts s = (r, s')"
  shows "(\<exists>err. r = Inl err \<and> s' = s \<and> err \<noteq> BrokerUnavailable) \<or>
         (r = Inl BrokerUnavailable \<and> \<not> broker_up e \<and> store_up e \<and>
            s' = s\<lparr>job_docs := job_docs s @ [make_jobDoc e q t (make_jobData e t d opts)]\<rparr>) \<or>
         (\<exists>b. r = Inr b \<and> store_up e \<and> broker_up e \<and>
            bj_id b = jd_id (make_jobData e t d opts) \<and>
            job_docs s' = job_docs s @ [make_jobDoc e q t (make_jobData e t d opts)] \<and>
            (\<exists>bs. map_of (queues s') q = Some bs \<and> b \<in> set bs))"
  using assms
  by (auto simp: addJob_def save_new_def bull_add_def Let_def find_Some_iff make_bullJob_def
      update_conv' split: option.splits sum.splits if_splits prod.splits)

text \<open>
  C8, as the code has it. An infrastructure failure during \<open>addJob\<close> always surfaces
  as an error to the caller. When the store is unavailable nothing is written. When the
  broker is unavailable the job record has already been saved: it stays in the store in
  status waiting and nothing is enqueued. On success the record is in the store and the
  job is in the queue.
\<close>

theorem addJob_infrastructure_error:
  assumes "addJob e q t d opts s = (r, s')"
  shows "(\<not> store_up e \<or> \<not> broker_up e \<longrightarrow> (\<exists>err. r = Inl err)) \<and>
         (r = Inl StoreUnavailable \<longrightarrow> s' = s) \<and>
         (r = Inl BrokerUnavailable \<longrightarrow>
            queues s' = queues s \<and>
            (\<exists>doc. job_docs s' = job_docs s @ [doc] \<and> status doc = Waiting)) \<and>
         (\<forall>b. r = Inr b \<longrightarrow>
            (\<exists>doc. job_docs s' = job_docs s @ [doc] \<and> jobId doc = bj_id b \<and> status doc = Waiting) \<and>
            (\<exists>bs. map_of (queues s') q = Some bs \<and> b \<in> set bs))"
proof -
  let ?doc = "make_jobDoc e q t (make_jobData e t d opts)"
  have doc: "status ?doc = Waiting" "jobId ?doc = jd_id (make_jobData e t d opts)"
    by (simp_all add: make_jobDoc_def)
  from addJob_outcomes[OF assms] doc show ?thesis
    by (elim disjE exE conjE) auto
qed

lemma getJob_started: "getJob jid (started_system\<lparr>job_docs := ds\<rparr>) = None"
  by (simp add: getJob_def started_system_def QUEUES_def)

lemma demo_broker_down:
  "addJob env_broker_down ''notifications'' ''send-notification'' plain_payload None started_system
     = (Inl BrokerUnavailable,
        started_system\<lparr>job_docs := [make_jobDoc env_broker_down ''notifications'' ''send-notification''
           (make_jobData env_broker_down ''send-notification'' plain_payload None)]\<rparr>)"
  by (subst addJob_broker_down[where bs = "[]"])
     (simp_all add: started_fields env_ok_fields env_broker_down_def)

theorem addJob_infrastructure_error_witness:
  "fst (addJob env_broker_down ''notifications'' ''send-notification'' plain_payload None
          started_system) = Inl BrokerUnavailable \<and>
   queues (snd (addJob env_broker_down ''notifications'' ''send-notification'' plain_payload None
          started_system)) = queues started_system \<and>
   (\<exists>doc. job_docs (snd (addJob env_broker_down ''notifications'' ''send-notification''
          plain_payload None started_system)) = job_docs started_system @ [doc] \<and>
        status doc = Waiting)"
proof -
  let ?r = "addJob env_broker_down ''notifications'' ''send-notification'' plain_payload None
              started_system"
  have eq: "?r = (fst ?r, snd ?r)" by simp
  have f: "fst ?r = Inl BrokerUnavailable" by (simp add: demo_broker_down)
  from addJob_infrastructure_error[OF eq] f show ?thesis by simp
qed

text \<open>
  The claim "no job record persists after a failed submit" fails when Redis is down: the
  call throws, the record is in the store, and no Bull queue holds the job.
\<close>

theorem addJob_phantom_counterexample:
  "fst (addJob env_broker_down ''notifications'' ''send-notification'' plain_payload None
          started_system) = Inl BrokerUnavailable \<and>
   map (\<lambda>d. (jobId d, status d))
     (job_docs (snd (addJob env_broker_down ''notifications'' ''send-notification''
        plain_payload None started_system))) = [(''job_1700000000000_k3x9q2m1z'', Waiting)] \<and>
   getJob ''job_1700000000000_k3x9q2m1z''
     (snd (addJob env_broker_down ''notifications'' ''send-notification''
        plain_payload None started_system)) = None"
  by (simp add: demo_broker_down getJob_started)
     (simp add: make_jobDoc_def make_jobData_def plain_payload_def generateJobId_def
        env_broker_down_def env_ok_def)


text \<open>
  C5, as the code has it. The route checks the type against the list of all job types,
  not against the queue: a submit whose type is in none of them fails and creates
  nothing, with \<open>INVALID_JOB_TYPE\<close> once the earlier checks (caller, required fields,
  queue name) have passed.
\<close>

theorem post_job_unknown_type:
  assumes "b_type body = Some t" and "t \<notin> set JOB_TYPES"
  shows "(\<exists>err. post_job e req body s = (Inl err, s)) \<and>
         (\<not> absent (x_user_id req) \<and> (\<exists>q. b_queue body = Some q \<and> q \<in> set QUEUES) \<and>
          b_data body \<noteq> None \<and> t \<noteq> [] \<longrightarrow>
            post_job e req body s = (Inl invalid_job_type, s))"
  using assms
  by (auto simp: post_job_def QUEUES_def split: option.splits)

theorem post_job_unknown_type_witness:
  "post_job env_ok user_req unknown_type_body started_system = (Inl invalid_job_type, started_system)"
proof -
  have a: "b_type unknown_type_body = Some ''mine-bitcoin''" by (simp add: unknown_type_body_def)
  have b: "''mine-bitcoin'' \<notin> set JOB_TYPES" by (simp add: JOB_TYPES_def)
  have c: "\<not> absent (x_user_id user_req) \<and> (\<exists>q. b_queue unknown_type_body = Some q \<and> q \<in> set QUEUES) \<and>
          b_data unknown_type_body \<noteq> None \<and> ''mine-bitcoin'' \<noteq> []"
    by (simp add: absent_def user_req_def unknown_type_body_def QUEUES_def)
  from post_job_unknown_type[OF a b, of env_ok user_req started_system] c show ?thesis by blast
qed

text \<open>
  The claim fails for a known type sent to a queue that has no processor for it: the pair
  (cleanup, send-notification) is not registered, yet the job is created.
\<close>

theorem post_job_unregistered_pair_counterexample:
  "(''cleanup'', ''send-notification'') \<notin> set (processors started_system) \<and>
   fst (post_job env_ok user_req stray_body started_system) = Inr ''job_1700000000000_k3x9q2m1z'' \<and>
   map (\<lambda>d. (jobId d, queue d, type d, status d))
     (job_docs (snd (post_job env_ok user_req stray_body started_system)))
     = [(''job_1700000000000_k3x9q2m1z'', ''cleanup'', ''send-notification'', Waiting)]"
proof -
  have reg: "(''cleanup'', ''send-notification'') \<notin> set (processors started_system)"
    by (simp add: started_system_def registrations_def)
  have add: "addJob env_ok ''cleanup'' ''send-notification'' (plain_payload\<lparr>p_userId := Some ''u1''\<rparr>) None started_system
     = (Inr (make_bullJob ''send-notification'' (make_jobData env_ok ''send-notification'' (plain_payload\<lparr>p_userId := Some ''u1''\<rparr>) None) None),
            started_system\<lparr>job_docs := job_docs started_system @ [make_jobDoc env_ok ''cleanup'' ''send-notification'' (make_jobData env_ok ''send-notification'' (plain_payload\<lparr>p_userId := Some ''u1''\<rparr>) None)],
              queues := AList.update ''cleanup'' ([] @ [make_bullJob ''send-notification'' (make_jobData env_ok ''send-notification'' (plain_payload\<lparr>p_userId := Some ''u1''\<rparr>) None) None])
                          (queues started_system)\<rparr>)"
    by (rule addJob_ok) (simp_all add: started_fields env_ok_fields)
  have post: "post_job env_ok user_req stray_body started_system =
     (case addJob env_ok ''cleanup'' ''send-notification'' (plain_payload\<lparr>p_userId := Some ''u1''\<rparr>) None started_system of
        (Inl err, s') \<Rightarrow> (Inl err, s') | (Inr job, s') \<Rightarrow> (Inr (bj_id job), s'))"
    by (simp add: post_job_def absent_def user_req_def stray_body_def QUEUES_def JOB_TYPES_def)
  show ?thesis
    unfolding post add using reg
    by (simp add: make_bullJob_def make_jobDoc_def make_jobData_def plain_payload_def
        generateJobId_def env_ok_fields started_fields)
qed

section \<open>Cleaning a queue\<close>

lemma clean_queue_run:
  assumes "x_user_role req = Some ''admin''" "queueName \<in> set QUEUES" "store_up e"
    and "valid_time (now e - (case c_olderThan body of None \<Rightarrow> 24 * 60 * 60 * 1000 | Some v \<Rightarrow> v))"
  shows "clean_queue e req queueName body s =
     (Inr (length (filter (clean_filter queueName
              (now e - (case c_olderThan body of None \<Rightarrow> 24 * 60 * 60 * 1000 | Some v \<Rightarrow> v))
              (case c_status body of None \<Rightarrow> ''completed'' | Some v \<Rightarrow> v)) (job_docs s))),
      s\<lparr>job_docs := filter (\<lambda>j. \<not> clean_filter queueName
              (now e - (case c_olderThan body of None \<Rightarrow> 24 * 60 * 60 * 1000 | Some v \<Rightarrow> v))
              (case c_status body of None \<Rightarrow> ''completed'' | Some v \<Rightarrow> v) j) (job_docs s)\<rparr>)"
  using assms by (simp add: clean_queue_def Let_def)

text \<open>With a cutoff that is not a valid date the route deletes nothing.\<close>

lemma clean_queue_invalid_cutoff:
  assumes "\<not> valid_time (now e - (case c_olderThan body of None \<Rightarrow> 24 * 60 * 60 * 1000 | Some v \<Rightarrow> v))"
  shows "snd (clean_queue e req queueName body s) = s"
  using assms by (simp add: clean_queue_def Let_def)

lemma clean_filter_other:
  assumes "st \<noteq> ''completed''" "st \<noteq> ''failed''" "st \<noteq> ''all''"
  shows "clean_filter queueName cutoff st j = (queue j = queueName \<and> createdAt j < cutoff)"
  using assms by (simp add: clean_filter_def)

lemma clean_filter_terminal:
  assumes "st = ''completed'' \<or> st = ''failed'' \<or> st = ''all''"
    and "clean_filter queueName cutoff st j"
  shows "status j = Completed \<or> status j = Failed"
  using assms by (auto simp: clean_filter_def split: if_splits)

lemma default_older: "(case x of None \<Rightarrow> 24 * 60 * 60 * 1000 | Some v \<Rightarrow> v) =
    (case x of None \<Rightarrow> (86400000::int) | Some v \<Rightarrow> v)"
  by (cases x) simp_all

text \<open>
  C9. For an admin's clean request on a known queue: when the \<open>status\<close> argument is
  none of completed, failed and all, and the cutoff (now minus \<open>olderThan\<close>, 24 hours
  by default) is a valid date, the filter has no status constraint, and the jobs left
  are exactly those outside the queue or created at or after the cutoff, so every
  older job of the queue is deleted whatever its status. For the three known values
  (completed is also the default) only completed or failed jobs are deleted.
\<close>

theorem clean_queue_status_filter:
  assumes "x_user_role req = Some ''admin''" "queueName \<in> set QUEUES" "store_up e"
  shows "(\<forall>st. c_status body = Some st \<and> st \<noteq> ''completed'' \<and> st \<noteq> ''failed'' \<and> st \<noteq> ''all'' \<and>
              valid_time (now e - (case c_olderThan body of None \<Rightarrow> 86400000 | Some v \<Rightarrow> v)) \<longrightarrow>
            job_docs (snd (clean_queue e req queueName body s)) =
              filter (\<lambda>j. \<not> (queue j = queueName \<and>
                              createdAt j < now e - (case c_olderThan body of
                                                        None \<Rightarrow> 86400000 | Some v \<Rightarrow> v)))
                (job_docs s)) \<and>
         (c_status body = None \<or> c_status body = Some ''completed'' \<or>
          c_status body = Some ''failed'' \<or> c_status body = Some ''all'' \<longrightarrow>
            (\<forall>j \<in> set (job_docs s).
               j \<notin> set (job_docs (snd (clean_queue e req queueName body s))) \<longrightarrow>
                 status j = Completed \<or> status j = Failed))"
proof (intro conjI allI impI ballI)
  fix st
  assume h: "c_status body = Some st \<and> st \<noteq> ''completed'' \<and> st \<noteq> ''failed'' \<and> st \<noteq> ''all'' \<and>
     valid_time (now e - (case c_olderThan body of None \<Rightarrow> 86400000 | Some v \<Rightarrow> v))"
  then have v: "valid_time (now e - (case c_olderThan body of
                                       None \<Rightarrow> 24 * 60 * 60 * 1000 | Some v \<Rightarrow> v))"
    by (simp add: default_older)
  from h show "job_docs (snd (clean_queue e req queueName body s)) =
      filter (\<lambda>j. \<not> (queue j = queueName \<and>
                createdAt j < now e - (case c_olderThan body of None \<Rightarrow> 86400000 | Some v \<Rightarrow> v)))
        (job_docs s)"
    by (simp add: clean_queue_run[OF assms v] clean_filter_other default_older)
next
  fix j
  assume known: "c_status body = None \<or> c_status body = Some ''completed'' \<or>
          c_status body = Some ''failed'' \<or> c_status body = Some ''all''"
    and j: "j \<in> set (job_docs s)"
    and gone: "j \<notin> set (job_docs (snd (clean_queue e req queueName body s)))"
  let ?st = "case c_status body of None \<Rightarrow> ''completed'' | Some v \<Rightarrow> v"
  let ?cut = "now e - (case c_olderThan body of None \<Rightarrow> 24 * 60 * 60 * 1000 | Some v \<Rightarrow> v)"
  from known have st: "?st = ''completed'' \<or> ?st = ''failed'' \<or> ?st = ''all''"
    by (elim disjE) simp_all
  have v: "valid_time ?cut"
  proof (rule ccontr)
    assume "\<not> valid_time ?cut"
    from clean_queue_invalid_cutoff[OF this] j gone show False by simp
  qed
  from j gone have "clean_filter queueName ?cut ?st j"
    by (simp add: clean_queue_run[OF assms v])
  with st show "status j = Completed \<or> status j = Failed"
    by (rule clean_filter_terminal)
qed

theorem clean_queue_status_filter_witness:
  "map (\<lambda>j. (jobId j, status j)) (job_docs backlog_system) =
     [(''j1'', Waiting), (''j2'', Active), (''j3'', Stalled), (''j4'', Waiting)] \<and>
   map jobId (job_docs (snd (clean_queue env_ok admin_req ''cleanup'' odd_status_body
                               backlog_system))) = [''j4'']"
proof -
  have a: "x_user_role admin_req = Some ''admin''" by (simp add: admin_req_def)
  have b: "''cleanup'' \<in> set QUEUES" by (simp add: QUEUES_def)
  have c: "store_up env_ok" by (simp add: env_ok_fields)
  have d: "c_status odd_status_body = Some ''everything'' \<and> ''everything'' \<noteq> ''completed'' \<and>
           ''everything'' \<noteq> ''failed'' \<and> ''everything'' \<noteq> ''all'' \<and>
           valid_time (now env_ok - (case c_olderThan odd_status_body of
                                       None \<Rightarrow> 86400000 | Some v \<Rightarrow> v))"
    by (simp add: odd_status_body_def valid_time_def env_ok_fields)
  have "job_docs (snd (clean_queue env_ok admin_req ''cleanup'' odd_status_body backlog_system)) =
          filter (\<lambda>j. \<not> (queue j = ''cleanup'' \<and>
                    createdAt j < now env_ok - (case c_olderThan odd_status_body of
                                                        None \<Rightarrow> 86400000 | Some v \<Rightarrow> v)))
                (job_docs backlog_system)"
    by (rule clean_queue_status_filter[OF a b c, THEN conjunct1, THEN spec, THEN mp, OF d])
  then show ?thesis
    by (simp add: backlog_system_def base_doc_def odd_status_body_def env_ok_fields)
qed

section \<open>The stall sweep\<close>

text \<open>
  C3, as the code has it. For every job the sweep processes (stalled for more than thirty
  minutes): with attempts below the maximum its status becomes waiting and its attempts
  grow by one; otherwise its status becomes failed, with the failure time recorded and
  an error text describing the stall. The sweep writes the job record only: the Bull
  queues are what they were.
\<close>

theorem processStalledJobs_sweep:
  assumes "store_up e" and "i < length (job_docs s)" and "stalled_long e (job_docs s ! i)"
  shows "(attempts (job_docs s ! i) < maxAttempts (job_docs s ! i) \<longrightarrow>
            status (job_docs (processStalledJobs e s) ! i) = Waiting \<and>
            attempts (job_docs (processStalledJobs e s) ! i) = attempts (job_docs s ! i) + 1) \<and>
         (\<not> attempts (job_docs s ! i) < maxAttempts (job_docs s ! i) \<longrightarrow>
            status (job_docs (processStalledJobs e s) ! i) = Failed \<and>
            failedAt (job_docs (processStalledJobs e s) ! i) = Some (now e) \<and>
            error (job_docs (processStalledJobs e s) ! i) =
              Some ''Job stalled and exceeded maximum retry attempts'') \<and>
         queues (processStalledJobs e s) = queues s"
  using assms by (simp add: processStalledJobs_def sweep_job_def)

theorem processStalledJobs_sweep_witness:
  "status (job_docs (processStalledJobs env_ok stalled_system) ! 0) = Waiting \<and>
   attempts (job_docs (processStalledJobs env_ok stalled_system) ! 0) = 2 \<and>
   queues (processStalledJobs env_ok stalled_system) = queues started_system"
proof -
  have a: "store_up env_ok" by (simp add: env_ok_fields)
  have b: "0 < length (job_docs stalled_system)" by (simp add: stalled_system_def)
  have c: "stalled_long env_ok (job_docs stalled_system ! 0)"
    by (simp add: stalled_system_def stalled_long_def base_doc_def env_ok_fields)
  have d: "attempts (job_docs stalled_system ! 0) = 1" "maxAttempts (job_docs stalled_system ! 0) = 3"
    "queues stalled_system = queues started_system"
    by (simp_all add: stalled_system_def base_doc_def)
  from processStalledJobs_sweep[OF a b c] d show ?thesis by simp
qed

text \<open>
  The claim's "re-enqueued with backoff" fails: a stalled job with attempts left is reset
  to waiting with its delay untouched, and no Bull queue holds it afterwards.
\<close>

theorem processStalledJobs_no_enqueue_counterexample:
  "map (\<lambda>d. (jobId d, status d, attempts d, delay d))
     (job_docs (processStalledJobs env_ok stalled_system)) = [(''j5'', Waiting, 2, 0)] \<and>
   getJob ''j5'' (processStalledJobs env_ok stalled_system) = None"
  by (simp add: processStalledJobs_def env_ok_fields stalled_system_def stalled_long_def
      sweep_job_def base_doc_def getJob_started)

section \<open>Cancelling and retrying jobs\<close>



lemma getJob_in_map_of:
  assumes "getJob_in jid qs = Some (qn, b)" and "distinct (map fst qs)"
  shows "\<exists>bs. map_of qs qn = Some bs \<and> find (\<lambda>x. bj_id x = jid) bs = Some b"
  using assms
proof (induction qs)
  case Nil
  then show ?case by simp
next
  case (Cons p qs)
  obtain k bs where p: "p = (k, bs)" by (cases p)
  show ?case
  proof (cases "find (\<lambda>x. bj_id x = jid) bs")
    case None
    with Cons p obtain bs' where "map_of qs qn = Some bs'" "find (\<lambda>x. bj_id x = jid) bs' = Some b"
      by auto
    moreover from this(1) Cons.prems(2) p have "qn \<noteq> k"
      by (auto dest: map_of_SomeD simp: rev_image_eqI)
    ultimately show ?thesis using p by simp
  next
    case (Some b')
    with Cons.prems p show ?thesis by simp
  qed
qed


text \<open>Removing a job touches the Bull queues only, and only makes them smaller.\<close>

lemma remove_job_frame:
  "job_docs (remove_job qn jid s) = job_docs s"
  "queue_docs (remove_job qn jid s) = queue_docs s"
  "processors (remove_job qn jid s) = processors s"
  by (simp_all add: remove_job_def)





lemma getJob_holds:
  assumes "distinct (map fst (queues s))" and "getJob jid s = Some (qn, b)"
  shows "holds qn jid s"
proof -
  from getJob_in_map_of[OF assms(2)[unfolded getJob_def] assms(1)]
  obtain bs where "map_of (queues s) qn = Some bs" "find (\<lambda>x. bj_id x = jid) bs = Some b"
    by blast
  then show ?thesis by (auto simp: holds_def find_Some_iff)
qed













lemma bull_of_fields: "bj_id (bull_of d st) = jobId d" "bj_state (bull_of d st) = st"
  by (simp_all add: bull_of_def)




lemma user_req_facts: "\<not> absent (x_user_id user_req)" "x_user_id user_req = Some ''u1''"
  "x_user_role user_req = Some ''user''"
  by (simp_all add: user_req_def absent_def)









lemma retry_job_run:
  assumes "\<not> absent (x_user_id req)" "store_up e"
    "find (\<lambda>d. jobId d = jid) (job_docs s) = Some jobDoc" "may_access req jobDoc"
  shows "retry_job e req jid s =
     (if status jobDoc \<noteq> Failed then (Inl not_retryable, s)
      else (case addJob e (queue jobDoc) (type jobDoc) (data jobDoc)
                   (Some \<lparr>o_attempts = Some (maxAttempts jobDoc), o_delay = None,
                          o_priority = Some (priority jobDoc)\<rparr>) s of
              (Inl err, s') \<Rightarrow> (Inl err, s')
            | (Inr newJob, s') \<Rightarrow> (Inr (bj_id newJob, jid), s')))"
  using assms by (simp add: retry_job_def)

lemma retry_job_success:
  assumes "retry_job e req jid s = (Inr (newId, origId), s')"
  shows "\<exists>orig b. find (\<lambda>d. jobId d = jid) (job_docs s) = Some orig \<and> status orig = Failed \<and>
           origId = jid \<and> newId = bj_id b \<and>
           addJob e (queue orig) (type orig) (data orig)
             (Some \<lparr>o_attempts = Some (maxAttempts orig), o_delay = None,
                    o_priority = Some (priority orig)\<rparr>) s = (Inr b, s')"
  using assms
  by (auto simp: retry_job_def split: if_splits option.splits prod.splits sum.splits)

text \<open>Every record \<open>addJob\<close> creates has the shape described with \<open>addJob_shaped\<close>.\<close>

lemma make_jobDoc_shaped: "addJob_shaped (make_jobDoc e q t (make_jobData e t d opts))"
  by (simp add: addJob_shaped_def make_jobDoc_def make_jobData_def js_or_def
      split: option.splits)

lemma addJob_keeps_shaped:
  assumes "addJob e q t d opts s = (r, s')" and "list_all addJob_shaped (job_docs s)"
  shows "list_all addJob_shaped (job_docs s')"
  using addJob_docs[OF assms(1)] assms(2) make_jobDoc_shaped[of e q t d opts] by auto

text \<open>The other writers of the job collection leave the shape alone.\<close>

lemma update_first_keeps:
  assumes "list_all P xs" and "\<And>x. P x \<Longrightarrow> P (f x)"
  shows "list_all P (update_first Q f xs)"
  using assms by (induction xs) auto

lemma handlers_keep_shaped:
  assumes "list_all addJob_shaped (job_docs s)"
  shows "list_all addJob_shaped (job_docs (onJobActive e jid s))"
    and "list_all addJob_shaped (job_docs (onJobStalled e jid s))"
    and "list_all addJob_shaped (job_docs (onJobCompleted e jid res ms s))"
    and "list_all addJob_shaped (job_docs (onJobFailed e jid msg n s))"
  using assms
  by (auto simp: onJobActive_def onJobStalled_def onJobCompleted_def onJobFailed_def
      addJob_shaped_def intro!: update_first_keeps)

lemma processStalledJobs_keeps_shaped:
  assumes "list_all addJob_shaped (job_docs s)"
  shows "list_all addJob_shaped (job_docs (processStalledJobs e s))"
  using assms
  by (auto simp: processStalledJobs_def sweep_job_def addJob_shaped_def list_all_iff)

lemma clean_queue_keeps_shaped:
  assumes "list_all addJob_shaped (job_docs s)"
  shows "list_all addJob_shaped (job_docs (snd (clean_queue e req qn body s)))"
  using assms by (auto simp: clean_queue_def Let_def list_all_iff)

lemma cancel_bull_docs:
  assumes "cancel_bull e jid s = Inr s1"
  shows "job_docs s1 = job_docs s"
  using assms
  by (auto simp: cancel_bull_def remove_job_frame split: if_splits option.splits prod.splits)

lemma delete_job_keeps_shaped:
  assumes "list_all addJob_shaped (job_docs s)"
  shows "list_all addJob_shaped (job_docs (snd (delete_job e req jid s)))"
  using assms
  by (auto simp: delete_job_def addJob_shaped_def cancel_bull_docs intro!: update_first_keeps
      split: option.splits sum.splits)

lemma bulk_loop_keeps_shaped:
  assumes "bulk_loop e sel ds s = (ds', rs, s')" and "list_all addJob_shaped ds"
  shows "list_all addJob_shaped ds'"
  using assms
proof (induction ds arbitrary: s ds' rs s')
  case Nil
  then show ?case by simp
next
  case (Cons a ds)
  then show ?case
    by (auto simp: addJob_shaped_def split: if_splits prod.splits sum.splits)
qed

lemma bulk_cancel_keeps_shaped:
  assumes "list_all addJob_shaped (job_docs s)"
  shows "list_all addJob_shaped (job_docs (snd (bulk_cancel e req ids s)))"
  using assms
  by (auto simp: bulk_cancel_def split: option.splits prod.splits
      dest: bulk_loop_keeps_shaped)

text \<open>
  C4, as the code has it. A retry succeeds only for a job whose stored status is failed;
  for any other status the caller who passed the earlier checks gets
  \<open>JOB_NOT_RETRYABLE\<close> and nothing changes. On success exactly one record is
  appended, under an id that no earlier record has; its queue, type and payload are the
  original's, and so are its \<open>maxAttempts\<close> and priority when the original has the
  shape \<open>addJob\<close> gives its records; it starts waiting with no attempts. The earlier
  records, the original among them, are unchanged, and nothing stored names the pair.
\<close>

theorem retry_job_clones_failed:
  "(\<forall>newId origId s'. retry_job e req jid s = (Inr (newId, origId), s') \<longrightarrow>
      (\<exists>orig new. find (\<lambda>d. jobId d = jid) (job_docs s) = Some orig \<and> status orig = Failed \<and>
         origId = jid \<and> job_docs s' = job_docs s @ [new] \<and> queue_docs s' = queue_docs s \<and>
         jobId new = newId \<and> newId \<notin> set (map jobId (job_docs s)) \<and>
         queue new = queue orig \<and> type new = type orig \<and> data new = data orig \<and>
         (addJob_shaped orig \<longrightarrow>
            maxAttempts new = maxAttempts orig \<and> priority new = priority orig) \<and>
         status new = Waiting \<and> attempts new = 0)) \<and>
   (\<forall>orig. \<not> absent (x_user_id req) \<and> store_up e \<and>
      find (\<lambda>d. jobId d = jid) (job_docs s) = Some orig \<and> may_access req orig \<and>
      status orig \<noteq> Failed \<longrightarrow> retry_job e req jid s = (Inl not_retryable, s))"
proof (intro conjI allI impI)
  fix newId origId s'
  assume "retry_job e req jid s = (Inr (newId, origId), s')"
  from retry_job_success[OF this] obtain orig b where
    o: "find (\<lambda>d. jobId d = jid) (job_docs s) = Some orig" "status orig = Failed" "origId = jid"
       "newId = bj_id b"
    and add: "addJob e (queue orig) (type orig) (data orig)
             (Some \<lparr>o_attempts = Some (maxAttempts orig), o_delay = None,
                    o_priority = Some (priority orig)\<rparr>) s = (Inr b, s')"
    by blast
  let ?opts = "Some \<lparr>o_attempts = Some (maxAttempts orig), o_delay = None,
                    o_priority = Some (priority orig)\<rparr>"
  let ?jd = "make_jobData e (type orig) (data orig) ?opts"
  let ?new = "make_jobDoc e (queue orig) (type orig) ?jd"
  from addJob_outcomes[OF add] have
    n: "bj_id b = jd_id ?jd" "job_docs s' = job_docs s @ [?new]"
    by auto
  from addJob_docs[OF add] n(2) have fresh: "jobId ?new \<notin> set (map jobId (job_docs s))"
    by auto
  have qd: "queue_docs s' = queue_docs s"
    using add by (auto simp: addJob_def Let_def split: option.splits sum.splits prod.splits)
  have fields: "jobId ?new = jd_id ?jd" "queue ?new = queue orig" "type ?new = type orig"
    "data ?new = data orig" "status ?new = Waiting" "attempts ?new = 0"
    by (simp_all add: make_jobDoc_def make_jobData_def)
  have clone: "addJob_shaped orig \<longrightarrow>
      maxAttempts ?new = maxAttempts orig \<and> priority ?new = priority orig"
    by (simp add: addJob_shaped_def make_jobDoc_def make_jobData_def js_or_def opt_attempts_def)
  show "\<exists>orig new. find (\<lambda>d. jobId d = jid) (job_docs s) = Some orig \<and> status orig = Failed \<and>
         origId = jid \<and> job_docs s' = job_docs s @ [new] \<and> queue_docs s' = queue_docs s \<and>
         jobId new = newId \<and> newId \<notin> set (map jobId (job_docs s)) \<and>
         queue new = queue orig \<and> type new = type orig \<and> data new = data orig \<and>
         (addJob_shaped orig \<longrightarrow>
            maxAttempts new = maxAttempts orig \<and> priority new = priority orig) \<and>
         status new = Waiting \<and> attempts new = 0"
    apply (rule exI[of _ orig], rule exI[of _ ?new])
    using o n fresh qd fields clone by simp
next
  fix orig
  assume "\<not> absent (x_user_id req) \<and> store_up e \<and>
      find (\<lambda>d. jobId d = jid) (job_docs s) = Some orig \<and> may_access req orig \<and>
      status orig \<noteq> Failed"
  then show "retry_job e req jid s = (Inl not_retryable, s)"
    by (simp add: retry_job_def)
qed

lemma active_doc_fields:
  "jobId active_doc = ''j6''" "status active_doc = Active" "userId active_doc = Some ''u1''"
  "error active_doc = None"
  by (simp_all add: active_doc_def base_doc_def)

lemma active_system_facts:
  "job_docs active_system = [active_doc]"
  "find (\<lambda>d. jobId d = ''j6'') (job_docs active_system) = Some active_doc"
  by (simp_all add: active_system_def active_doc_fields)

lemma may_access_active: "may_access user_req active_doc"
  by (simp add: may_access_def user_req_facts active_doc_fields)

lemma failed_doc_fields:
  "jobId (failed_doc jid) = jid" "status (failed_doc jid) = Failed"
  "userId (failed_doc jid) = Some ''u1''" "queue (failed_doc jid) = ''cleanup''"
  "type (failed_doc jid) = ''cleanup-expired-jobs''" "data (failed_doc jid) = plain_payload"
  "maxAttempts (failed_doc jid) = 3" "priority (failed_doc jid) = 0"
  by (simp_all add: failed_doc_def base_doc_def)

lemma failed_pair_facts:
  "job_docs failed_pair_system = [failed_doc ''j7'', failed_doc ''j8'']"
  "find (\<lambda>d. jobId d = ''j7'') (job_docs failed_pair_system) = Some (failed_doc ''j7'')"
  "find (\<lambda>d. jobId d = ''j8'') (job_docs failed_pair_system) = Some (failed_doc ''j8'')"
  "map_of (queues failed_pair_system) ''cleanup'' = Some []"
  by (simp_all add: failed_pair_system_def failed_doc_fields started_fields)

lemma may_access_failed: "may_access user_req (failed_doc jid)"
  by (simp add: may_access_def user_req_def failed_doc_fields)

lemma retry_id:
  "jd_id (make_jobData env_ok t plain_payload opts) = ''job_1700000000000_k3x9q2m1z''"
  by (simp add: make_jobData_def plain_payload_def generateJobId_def env_ok_fields)

lemma retry_addJob:
  "addJob env_ok ''cleanup'' ''cleanup-expired-jobs'' plain_payload retry_options
     failed_pair_system =
   (Inr (make_bullJob ''cleanup-expired-jobs''
           (make_jobData env_ok ''cleanup-expired-jobs'' plain_payload retry_options) retry_options),
    failed_pair_system\<lparr>job_docs := job_docs failed_pair_system @
        [make_jobDoc env_ok ''cleanup'' ''cleanup-expired-jobs''
           (make_jobData env_ok ''cleanup-expired-jobs'' plain_payload retry_options)],
      queues := AList.update ''cleanup''
        ([] @ [make_bullJob ''cleanup-expired-jobs''
           (make_jobData env_ok ''cleanup-expired-jobs'' plain_payload retry_options) retry_options])
        (queues failed_pair_system)\<rparr>)"
  by (rule addJob_ok)
     (simp_all add: failed_pair_facts env_ok_fields retry_id failed_doc_fields)

lemma retry_demo:
  assumes "find (\<lambda>d. jobId d = jid) (job_docs failed_pair_system) = Some (failed_doc jid)"
  shows "retry_job env_ok user_req jid failed_pair_system =
   (Inr (''job_1700000000000_k3x9q2m1z'', jid),
    failed_pair_system\<lparr>job_docs := job_docs failed_pair_system @
        [make_jobDoc env_ok ''cleanup'' ''cleanup-expired-jobs''
           (make_jobData env_ok ''cleanup-expired-jobs'' plain_payload retry_options)],
      queues := AList.update ''cleanup''
        ([] @ [make_bullJob ''cleanup-expired-jobs''
           (make_jobData env_ok ''cleanup-expired-jobs'' plain_payload retry_options) retry_options])
        (queues failed_pair_system)\<rparr>)"
proof -
  have opts: "Some \<lparr>o_attempts = Some (maxAttempts (failed_doc jid)), o_delay = None,
                    o_priority = Some (priority (failed_doc jid))\<rparr> = retry_options"
    by (simp add: retry_options_def failed_doc_fields)
  show ?thesis
    unfolding retry_job_run[OF user_req_facts(1) env_ok_fields(1) assms may_access_failed] opts
    by (simp add: failed_doc_fields retry_addJob) (simp add: make_bullJob_def retry_id)
qed

lemma failed_doc_shaped: "addJob_shaped (failed_doc jid)"
  by (simp add: addJob_shaped_def failed_doc_fields plain_payload_def js_or_def)

theorem retry_job_clones_failed_witness:
  "fst (retry_job env_ok user_req ''j6'' active_system) = Inl not_retryable \<and>
   (\<exists>new. job_docs (snd (retry_job env_ok user_req ''j7'' failed_pair_system)) =
            job_docs failed_pair_system @ [new] \<and>
          jobId new = ''job_1700000000000_k3x9q2m1z'' \<and> queue new = ''cleanup'' \<and>
          type new = ''cleanup-expired-jobs'' \<and> data new = plain_payload \<and>
          maxAttempts new = 3 \<and> priority new = 0 \<and> status new = Waiting \<and> attempts new = 0)"
proof -
  have h: "\<not> absent (x_user_id user_req) \<and> store_up env_ok \<and>
      find (\<lambda>d. jobId d = ''j6'') (job_docs active_system) = Some active_doc \<and>
      may_access user_req active_doc \<and> status active_doc \<noteq> Failed"
    by (simp add: user_req_facts(1) env_ok_fields active_system_facts(2) active_doc_fields
        may_access_active)
  note a = retry_job_clones_failed[THEN conjunct2, THEN spec, THEN mp, OF h]
  let ?r = "retry_job env_ok user_req ''j7'' failed_pair_system"
  have eq: "?r = (Inr (''job_1700000000000_k3x9q2m1z'', ''j7''), snd ?r)"
    by (simp add: retry_demo[OF failed_pair_facts(2)])
  note b = retry_job_clones_failed[THEN conjunct1, THEN spec, THEN spec, THEN spec, THEN mp, OF eq]
  then obtain orig new where
    n: "find (\<lambda>d. jobId d = ''j7'') (job_docs failed_pair_system) = Some orig"
       "job_docs (snd ?r) = job_docs failed_pair_system @ [new]"
       "jobId new = ''job_1700000000000_k3x9q2m1z''"
       "queue new = queue orig" "type new = type orig" "data new = data orig"
       "addJob_shaped orig \<longrightarrow>
            maxAttempts new = maxAttempts orig \<and> priority new = priority orig"
       "status new = Waiting" "attempts new = 0"
    by (elim exE conjE)
  from n(1) have orig: "orig = failed_doc ''j7''" by (simp add: failed_pair_facts(2))
  have "queue new = ''cleanup''" "type new = ''cleanup-expired-jobs''" "data new = plain_payload"
    "maxAttempts new = 3" "priority new = 0"
    using n(4-7) by (simp_all add: orig failed_doc_fields failed_doc_shaped)
  with n(2,3,8,9) a show ?thesis by (intro conjI exI[of _ new]) simp_all
qed

text \<open>
  The claim's link from the original to the new record does not exist: retrying either
  of two failed jobs with equal contents leaves one and the same state, in which the two
  originals are as they were. Only the response tells which job was retried.
\<close>

theorem retry_job_no_link_counterexample:
  "fst (retry_job env_ok user_req ''j7'' failed_pair_system) =
     Inr (''job_1700000000000_k3x9q2m1z'', ''j7'') \<and>
   fst (retry_job env_ok user_req ''j8'' failed_pair_system) =
     Inr (''job_1700000000000_k3x9q2m1z'', ''j8'') \<and>
   snd (retry_job env_ok user_req ''j7'' failed_pair_system) =
     snd (retry_job env_ok user_req ''j8'' failed_pair_system) \<and>
   take 2 (job_docs (snd (retry_job env_ok user_req ''j7'' failed_pair_system))) =
     job_docs failed_pair_system"
  by (simp add: retry_demo[OF failed_pair_facts(2)] retry_demo[OF failed_pair_facts(3)]
      failed_pair_facts(1))

section \<open>Health evaluation\<close>

text \<open>
  The evaluation written in both places: error when failed > completed; otherwise
  warning when failed > 10 and failed > 0.1 * completed; otherwise healthy.
\<close>

lemma health_eval_rule:
  "health_eval failed completed =
     (if failed > completed then Error
      else if failed > 10 \<and> real failed > 0.1 * real completed then Warning
      else Healthy)"
  by (simp add: health_eval_def Let_def mult.commute)

text \<open>
  \<open>GET /health\<close> reports one entry for each Bull queue, in order, with the status the
  evaluation gives the queue's failed and completed counts, and the worst of them overall.
\<close>

lemma get_health_run:
  assumes "x_user_role req = Some ''admin''" and "store_up e" and "broker_up e"
  shows "get_health e req s =
           (let qs = map queue_health_of (map (\<lambda>(n, bs). (n, stat_of bs)) (queues s))
            in Inr \<lparr>hs_overall = (if Error \<in> set (map qh_status qs) then Error
                                   else if Warning \<in> set (map qh_status qs) then Warning
                                   else Healthy),
                    hs_queues = qs\<rparr>)"
  by (simp add: get_health_def getQueueStats_def assms absent_def Let_def image_image)

lemma queue_health_of_status:
  "qh_status (queue_health_of (n, stat_of bs)) =
     (if count_state BFailed bs > count_state BCompleted bs then Error
      else if count_state BFailed bs > 10 \<and>
              real (count_state BFailed bs) > 0.1 * real (count_state BCompleted bs)
        then Warning
      else Healthy)"
  by (simp add: queue_health_of_def stat_of_def health_eval_rule)

text \<open>
  The scheduler's own health check never gets as far as the evaluation: for each of the
  eight queue names the second lookup finds nothing, so no queue document is written.
\<close>

lemma stat_prop_queue_name:
  assumes "n \<in> set QUEUES"
  shows "stat_prop st n = None" "\<not> absent (Some n)"
  using assms by (auto simp: QUEUES_def stat_prop_def absent_def)

lemma health_check_loop_skips:
  assumes "set names \<subseteq> set QUEUES"
  shows "health_check_loop e names s = s"
  using assms
proof (induction names)
  case Nil
  then show ?case by simp
next
  case (Cons n names)
  then have n: "n \<in> set QUEUES" and rest: "health_check_loop e names s = s" by simp_all
  show ?case
    by (simp add: getQueueStats_def stat_prop_queue_name[OF n] rest split: option.splits)
qed

lemma performHealthChecks_writes_nothing: "performHealthChecks e s = s"
  by (simp add: performHealthChecks_def health_check_loop_skips)

lemma troubled_facts:
  "queues troubled_system =
     [(''business-discovery'', []), (''instagram-detection'', []), (''video-scraping'', []),
      (''video-analysis'', []), (''report-generation'', []), (''file-processing'', []),
      (''cleanup'', [bull_of (failed_doc ''j7'') BFailed, bull_of (failed_doc ''j8'') BFailed]),
      (''notifications'', [])]"
  "map (\<lambda>q. (name q, healthStatus q)) (queue_docs troubled_system) = [(''cleanup'', Healthy)]"
  by (simp_all add: troubled_system_def started_system_def QUEUES_def default_queue_doc_def)

lemma admin_req_facts: "x_user_role admin_req = Some ''admin''"
  by (simp add: admin_req_def)

text \<open>
  C6 does not hold of the scheduled health check. In a state whose cleanup queue has two
  failed jobs and no completed one, the check reads these counts and then looks up the
  queue's name in them, finds nothing, and moves on: the stored health status of the
  queue stays healthy, where the evaluation of the counts is error, as
  \<open>GET /health\<close> computes it for the same state.
\<close>

theorem performHealthChecks_never_evaluates:
  "getQueueStats (Some ''cleanup'') troubled_system =
     OneStat (Some \<lparr>st_waiting = 0, st_active = 0, st_completed = 0, st_failed = 2,
                    st_delayed = 0, st_total = 2\<rparr>) \<and>
   health_eval 2 0 = Error \<and>
   map (\<lambda>q. (name q, healthStatus q)) (queue_docs troubled_system) = [(''cleanup'', Healthy)] \<and>
   map (\<lambda>q. (name q, healthStatus q)) (queue_docs (performHealthChecks env_ok troubled_system))
     = [(''cleanup'', Healthy)] \<and>
   (\<exists>h. get_health env_ok admin_req troubled_system = Inr h \<and> hs_overall h = Error \<and>
        map (\<lambda>q. (qh_name q, qh_status q, qh_failed q, qh_completed q)) (hs_queues h) =
          [(''business-discovery'', Healthy, 0, 0), (''instagram-detection'', Healthy, 0, 0),
           (''video-scraping'', Healthy, 0, 0), (''video-analysis'', Healthy, 0, 0),
           (''report-generation'', Healthy, 0, 0), (''file-processing'', Healthy, 0, 0),
           (''cleanup'', Error, 2, 0), (''notifications'', Healthy, 0, 0)])"
proof -
  have stats: "getQueueStats (Some ''cleanup'') troubled_system =
     OneStat (Some \<lparr>st_waiting = 0, st_active = 0, st_completed = 0, st_failed = 2,
                    st_delayed = 0, st_total = 2\<rparr>)"
    by (simp add: getQueueStats_def absent_def troubled_facts(1) stat_of_def count_state_def
        bull_of_fields)
  have ev: "health_eval 2 0 = Error"
    by (simp add: health_eval_def)
  have loop: "health_check_loop env_ok QUEUES troubled_system = troubled_system"
    by (simp add: QUEUES_def getQueueStats_def absent_def troubled_facts(1) stat_prop_def)
  have after: "performHealthChecks env_ok troubled_system = troubled_system"
    by (simp add: performHealthChecks_def env_ok_fields loop)
  have route: "get_health env_ok admin_req troubled_system =
      Inr \<lparr>hs_overall = Error,
           hs_queues = map queue_health_of
             (map (\<lambda>(n, bs). (n, stat_of bs)) (queues troubled_system))\<rparr>"
    by (simp add: get_health_def admin_req_facts env_ok_fields getQueueStats_def absent_def
        troubled_facts(1) queue_health_of_def stat_of_def count_state_def bull_of_fields
        health_eval_def)
  have entries: "map (\<lambda>q. (qh_name q, qh_status q, qh_failed q, qh_completed q))
        (map queue_health_of (map (\<lambda>(n, bs). (n, stat_of bs)) (queues troubled_system))) =
          [(''business-discovery'', Healthy, 0, 0), (''instagram-detection'', Healthy, 0, 0),
           (''video-scraping'', Healthy, 0, 0), (''video-analysis'', Healthy, 0, 0),
           (''report-generation'', Healthy, 0, 0), (''file-processing'', Healthy, 0, 0),
           (''cleanup'', Error, 2, 0), (''notifications'', Healthy, 0, 0)]"
    by (simp add: troubled_facts(1) queue_health_of_def stat_of_def count_state_def
        bull_of_fields health_eval_def)
  from entries show ?thesis
    by (simp add: stats ev after troubled_facts(2) route)
qed

section \<open>Pausing a queue\<close>

text \<open>
  Pausing and resuming write the queue document and nothing else, so what a worker
  reserves next is the same before and after.
\<close>

lemma set_active_frame:
  "job_docs (snd (set_active flag e req qn s)) = job_docs s"
  "queues (snd (set_active flag e req qn s)) = queues s"
  "processors (snd (set_active flag e req qn s)) = processors s"
  by (simp_all add: set_active_def)

lemma pause_keeps_reservation:
  "reserve qn (snd (pause_queue e req q s)) = reserve qn s"
  by (simp add: reserve_def pause_queue_def set_active_frame cong: option.case_cong)

text \<open>
  C1 at a concrete state: one job waits in the notifications queue, an admin pauses the
  queue, and the queue document says \<open>isActive = false\<close>. A worker of that queue
  still reserves the job and starts it.
\<close>

theorem pause_leaves_workers_running:
  "fst (pause_queue env_ok admin_req ''notifications'' queued_system) =
     Inr ''Queue notifications paused'' \<and>
   map (\<lambda>q. (name q, isActive q))
     (queue_docs (snd (pause_queue env_ok admin_req ''notifications'' queued_system))) =
     [(''notifications'', False)] \<and>
   map_option bj_id
     (reserve ''notifications'' (snd (pause_queue env_ok admin_req ''notifications'' queued_system)))
     = Some ''job_1700000000000_k3x9q2m1z'' \<and>
   map (\<lambda>d. (jobId d, status d, startedAt d))
     (job_docs (worker_step env_ok ''notifications''
        (snd (pause_queue env_ok admin_req ''notifications'' queued_system)))) =
     [(''job_1700000000000_k3x9q2m1z'', Active, Some 1700000000000)]"
proof -
  let ?job = "make_bullJob ''send-notification''
           (make_jobData env_ok ''send-notification'' plain_payload None) None"
  let ?doc = "make_jobDoc env_ok ''notifications'' ''send-notification''
           (make_jobData env_ok ''send-notification'' plain_payload None)"
  have q: "queue_docs queued_system = []" "job_docs queued_system = [?doc]"
    "map_of (queues queued_system) ''notifications'' = Some [?job]"
    "(''notifications'', ''send-notification'') \<in> set (processors queued_system)"
    by (simp_all add: queued_system_eq started_fields update_conv')
       (simp add: started_system_def registrations_def)
  have job: "bj_state ?job = BWaiting" "bj_name ?job = ''send-notification''"
    "bj_id ?job = ''job_1700000000000_k3x9q2m1z''"
    by (simp_all add: make_bullJob_def js_or_def opt_delay_def queued_job_id)
  have doc: "jobId ?doc = ''job_1700000000000_k3x9q2m1z''"
    by (simp add: make_jobDoc_def queued_job_id)
  have p: "pause_queue env_ok admin_req ''notifications'' queued_system =
      (Inr ''Queue notifications paused'',
       queued_system\<lparr>queue_docs := [(default_queue_doc env_ok ''notifications'')\<lparr>isActive := False\<rparr>]\<rparr>)"
    by (simp add: pause_queue_def set_active_def admin_req_def QUEUES_def env_ok_fields q(1)
        upsert_queue_def)
  have r: "reserve ''notifications'' (snd (pause_queue env_ok admin_req ''notifications''
              queued_system)) = Some ?job"
    by (simp add: pause_keeps_reservation) (simp add: reserve_def q job)
  have w: "job_docs (worker_step env_ok ''notifications''
        (snd (pause_queue env_ok admin_req ''notifications'' queued_system))) =
      [?doc\<lparr>status := Active, startedAt := Some (now env_ok)\<rparr>]"
    unfolding worker_step_def r
    by (simp add: onJobActive_def env_ok_fields p q(2) job doc)
  show ?thesis
    unfolding w r
    by (simp add: p default_queue_doc_def job doc env_ok_fields)
qed

section \<open>Metrics refresh\<close>

lemma find_update_first_other:
  assumes "\<And>x. Q (f x) = Q x" and "\<And>x. P x \<Longrightarrow> \<not> Q x"
  shows "find Q (update_first P f xs) = find Q xs"
  using assms by (induction xs) auto

lemma find_update_first_same:
  assumes "\<And>x. P (f x) = P x"
  shows "find P (update_first P f xs) = map_option f (find P xs)"
  using assms by (induction xs) auto

lemma find_append:
  "find P (xs @ ys) = (case find P xs of None \<Rightarrow> find P ys | Some x \<Rightarrow> Some x)"
  by (induction xs) auto

lemma find_None_names: "qn \<notin> set (map name qs) \<Longrightarrow> find (\<lambda>q. name q = qn) qs = None"
  by (induction qs) auto

lemma upsert_queue_same:
  assumes "\<And>q. name (f q) = name q"
  shows "\<exists>q0. find (\<lambda>q. name q = qn) (upsert_queue e qn f qs) = Some (f q0)"
proof (cases "qn \<in> set (map name qs)")
  case True
  then obtain q0 where "find (\<lambda>q. name q = qn) qs = Some q0"
    by (cases "find (\<lambda>q. name q = qn) qs") (auto simp: find_None_iff)
  with True have "find (\<lambda>q. name q = qn) (upsert_queue e qn f qs) = Some (f q0)"
    by (simp add: upsert_queue_def find_update_first_same assms)
  then show ?thesis ..
next
  case False
  then have "find (\<lambda>q. name q = qn) (upsert_queue e qn f qs) =
      Some (f (default_queue_doc e qn))"
    by (simp add: upsert_queue_def find_append find_None_names assms default_queue_doc_def)
  then show ?thesis ..
qed

lemma upsert_queue_other:
  assumes "\<And>q. name (f q) = name q" and "qn' \<noteq> qn"
  shows "find (\<lambda>q. name q = qn) (upsert_queue e qn' f qs) = find (\<lambda>q. name q = qn) qs"
proof -
  have "find (\<lambda>q. name q = qn) (update_first (\<lambda>q. name q = qn') f qs) =
        find (\<lambda>q. name q = qn) qs"
    by (rule find_update_first_other) (use assms in auto)
  then show ?thesis
    using assms
    by (simp add: upsert_queue_def find_append default_queue_doc_def split: option.splits)
qed

lemma update_queue_stats_docs: "job_docs (update_queue_stats e qn s) = job_docs s"
  by (simp add: update_queue_stats_def Let_def)

lemma fold_stats_docs: "job_docs (fold (update_queue_stats e) names s) = job_docs s"
  by (induction names arbitrary: s) (simp_all add: update_queue_stats_docs)

lemma update_queue_stats_other:
  assumes "qn' \<noteq> qn"
  shows "find (\<lambda>q. name q = qn) (queue_docs (update_queue_stats e qn' s)) =
         find (\<lambda>q. name q = qn) (queue_docs s)"
  using assms by (simp add: update_queue_stats_def Let_def upsert_queue_other)

lemma fold_stats_other:
  assumes "qn \<notin> set names"
  shows "find (\<lambda>q. name q = qn) (queue_docs (fold (update_queue_stats e) names s)) =
         find (\<lambda>q. name q = qn) (queue_docs s)"
  using assms
  by (induction names arbitrary: s) (auto simp: update_queue_stats_other)

lemma update_queue_stats_same:
  "\<exists>q. find (\<lambda>q. name q = qn) (queue_docs (update_queue_stats e qn s)) = Some q \<and>
       processingRate q = of_nat (length (recentJobs e qn (job_docs s))) \<and>
       averageProcessingTime q = averageOf (recentJobs e qn (job_docs s)) \<and>
       (\<forall>t. lastProcessed (recentJobs e qn (job_docs s)) = Some t \<longrightarrow> lastProcessedAt q = Some t)"
proof -
  let ?recent = "recentJobs e qn (job_docs s)"
  let ?f = "\<lambda>q. q\<lparr>processingRate := of_nat (length ?recent),
                     averageProcessingTime := averageOf ?recent,
                     lastProcessedAt := (case lastProcessed ?recent of
                                           None \<Rightarrow> lastProcessedAt q
                                         | Some t \<Rightarrow> Some t)\<rparr>"
  have "\<And>q. name (?f q) = name q" by simp
  from upsert_queue_same[of ?f qn e "queue_docs s", OF this] obtain q0 where
    "find (\<lambda>q. name q = qn) (upsert_queue e qn ?f (queue_docs s)) = Some (?f q0)" by blast
  then show ?thesis
    by (intro exI[of _ "?f q0"]) (simp add: update_queue_stats_def Let_def)
qed

lemma fold_stats_same:
  assumes "distinct names" and "qn \<in> set names"
  shows "\<exists>q. find (\<lambda>q. name q = qn) (queue_docs (fold (update_queue_stats e) names s)) = Some q \<and>
       processingRate q = of_nat (length (recentJobs e qn (job_docs s))) \<and>
       averageProcessingTime q = averageOf (recentJobs e qn (job_docs s)) \<and>
       (\<forall>t. lastProcessed (recentJobs e qn (job_docs s)) = Some t \<longrightarrow> lastProcessedAt q = Some t)"
  using assms
proof (induction names arbitrary: s)
  case Nil
  then show ?case by simp
next
  case (Cons n names)
  show ?case
  proof (cases "qn = n")
    case True
    with Cons.prems have "qn \<notin> set names" by simp
    then show ?thesis
      using update_queue_stats_same[of qn e s] True by (simp add: fold_stats_other)
  next
    case False
    with Cons.prems have "distinct names" "qn \<in> set names" by simp_all
    from Cons.IH[OF this, of "update_queue_stats e n s"] show ?thesis
      by (simp add: update_queue_stats_docs)
  qed
qed

lemma foldl_sum: "foldl (\<lambda>sum job. sum + g job) (a::int) xs = a + sum_list (map g xs)"
  by (induction xs arbitrary: a) (simp_all add: add.assoc)

lemma lastProcessed_latest:
  assumes "recent \<noteq> []" and "\<And>j. j \<in> set recent \<Longrightarrow> completedAt j \<noteq> None"
  shows "lastProcessed recent = Some (Max (completed_time ` set recent))"
proof -
  let ?xs = "sort_key (\<lambda>j. - completed_time j) recent"
  from assms(1) have "?xs \<noteq> []" by (metis length_sort length_0_conv)
  then obtain j rest where xs: "?xs = j # rest" by (cases ?xs) auto
  have st: "sorted (map (\<lambda>j. - completed_time j) ?xs)" by (rule sorted_sort_key)
  have set: "set ?xs = set recent" by simp
  from xs set have jin: "j \<in> set recent" by (metis list.set_intros(1))
  have "\<And>x. x \<in> set recent \<Longrightarrow> completed_time x \<le> completed_time j"
  proof -
    fix x assume "x \<in> set recent"
    with set xs have "x = j \<or> x \<in> set rest" by (metis set_ConsD)
    with st xs show "completed_time x \<le> completed_time j" by auto
  qed
  with jin have "Max (completed_time ` set recent) = completed_time j"
    by (intro Max_eqI) auto
  moreover from assms(2)[OF jin] have "completedAt j = Some (completed_time j)"
    by (auto simp: completed_time_def)
  ultimately show ?thesis by (simp add: lastProcessed_def xs)
qed

lemma recentJobs_completed: "j \<in> set (recentJobs e qn ds) \<Longrightarrow> completedAt j \<noteq> None"
  by (auto simp: recentJobs_def split: option.splits)

text \<open>
  C7, as the code computes it. After a refresh every queue has a document whose
  \<open>processingRate\<close> is the number of jobs completed in the last hour (a count per
  hour, not divided by sixty), whose \<open>averageProcessingTime\<close> is the mean processing
  time of those jobs (0 when there are none), and whose \<open>lastProcessedAt\<close> is the
  latest completion time among them when there are any.
\<close>

theorem updateQueueStatistics_refresh:
  assumes "store_up e" and "qn \<in> set QUEUES"
  shows "\<exists>q. find (\<lambda>q. name q = qn) (queue_docs (updateQueueStatistics e s)) = Some q \<and>
       processingRate q = of_nat (length (recentJobs e qn (job_docs s))) \<and>
       averageProcessingTime q =
         (if recentJobs e qn (job_docs s) = [] then 0
          else of_int (sum_list (map (\<lambda>j. case processingTime j of None \<Rightarrow> 0 | Some ms \<Rightarrow> ms)
                                   (recentJobs e qn (job_docs s))))
               / of_nat (length (recentJobs e qn (job_docs s)))) \<and>
       (recentJobs e qn (job_docs s) \<noteq> [] \<longrightarrow>
          lastProcessedAt q = Some (Max (completed_time ` set (recentJobs e qn (job_docs s)))))"
proof -
  let ?recent = "recentJobs e qn (job_docs s)"
  have d: "distinct QUEUES" by (simp add: QUEUES_def)
  from fold_stats_same[OF d assms(2), of e s] obtain q where
    q: "find (\<lambda>q. name q = qn) (queue_docs (fold (update_queue_stats e) QUEUES s)) = Some q"
       "processingRate q = of_nat (length ?recent)"
       "averageProcessingTime q = averageOf ?recent"
       "\<forall>t. lastProcessed ?recent = Some t \<longrightarrow> lastProcessedAt q = Some t"
    by blast
  have js: "\<And>x. js_or x 0 = (case x of None \<Rightarrow> 0 | Some ms \<Rightarrow> ms)"
    by (simp add: js_or_def split: option.splits)
  have avg: "averageOf ?recent =
         (if ?recent = [] then 0
          else of_int (sum_list (map (\<lambda>j. case processingTime j of None \<Rightarrow> 0 | Some ms \<Rightarrow> ms) ?recent))
               / of_nat (length ?recent))"
    by (simp add: averageOf_def foldl_sum js)
  have last: "?recent \<noteq> [] \<longrightarrow> lastProcessedAt q = Some (Max (completed_time ` set ?recent))"
    using q(4) lastProcessed_latest[of ?recent] recentJobs_completed by blast
  from q(1,2) avg q(3) last assms(1) show ?thesis
    by (intro exI[of _ q]) (simp add: updateQueueStatistics_def)
qed

lemma metrics_recent:
  "recentJobs env_ok ''cleanup'' (job_docs metrics_system) =
     [done_doc ''j9'' 40 1699999970000, done_doc ''j10'' 60 1699999980000]"
  by (simp add: recentJobs_def metrics_system_def done_doc_def base_doc_def env_ok_fields)

text \<open>
  With two jobs completed in the last hour the stored rate is 2, not the 2/60 per minute
  that the field is documented to hold.
\<close>

theorem updateQueueStatistics_refresh_witness:
  "length (recentJobs env_ok ''cleanup'' (job_docs metrics_system)) = 2 \<and>
   (\<exists>q. find (\<lambda>q. name q = ''cleanup'') (queue_docs (updateQueueStatistics env_ok metrics_system))
           = Some q \<and>
        processingRate q = 2 \<and> processingRate q \<noteq> 2 / 60 \<and>
        averageProcessingTime q = 50 \<and> lastProcessedAt q = Some 1699999980000)"
proof -
  have a: "store_up env_ok" by (simp add: env_ok_fields)
  have b: "''cleanup'' \<in> set QUEUES" by (simp add: QUEUES_def)
  from updateQueueStatistics_refresh[OF a b, of metrics_system] obtain q where
    q: "find (\<lambda>q. name q = ''cleanup'') (queue_docs (updateQueueStatistics env_ok metrics_system))
           = Some q"
       "processingRate q = of_nat (length (recentJobs env_ok ''cleanup'' (job_docs metrics_system)))"
       "averageProcessingTime q =
         (if recentJobs env_ok ''cleanup'' (job_docs metrics_system) = [] then 0
          else of_int (sum_list (map (\<lambda>j. case processingTime j of None \<Rightarrow> 0 | Some ms \<Rightarrow> ms)
                                   (recentJobs env_ok ''cleanup'' (job_docs metrics_system))))
               / of_nat (length (recentJobs env_ok ''cleanup'' (job_docs metrics_system))))"
       "recentJobs env_ok ''cleanup'' (job_docs metrics_system) \<noteq> [] \<longrightarrow>
          lastProcessedAt q = Some (Max (completed_time ` set (recentJobs env_ok ''cleanup'' (job_docs metrics_system))))"
    by (elim exE conjE)
  have f: "processingTime (done_doc jid ms t) = Some ms" "completed_time (done_doc jid ms t) = t"
    for jid ms t
    by (simp_all add: done_doc_def completed_time_def)
  from q(2) have r: "processingRate q = 2" by (simp add: metrics_recent)
  from q(3) have v: "averageProcessingTime q = 50" by (simp add: metrics_recent f)
  from q(4) have l: "lastProcessedAt q = Some 1699999980000" by (simp add: metrics_recent f)
  from q(1) r v l show ?thesis
    by (intro conjI exI[of _ q]) (simp_all add: metrics_recent)
qed

end
